theory Spec2Isabelle
  imports Main "HOL-Library.Word"
begin

unbundle bit_operations_syntax

section \<open>Bytes and buffers\<close>

text \<open>
  The program of \<^verbatim>\<open>crypto/curve25519/curve25519.c\<close> works on \<^verbatim>\<open>uint8_t\<close> buffers.
  A buffer is a list of 8-bit words; \<^verbatim>\<open>p + k\<close> for a buffer \<^verbatim>\<open>p\<close> is \<open>drop k p\<close>, and a
  callee that reads \<open>n\<close> bytes from a pointer gets \<open>take n\<close> of it.
\<close>

type_synonym u8 = "8 word"
type_synonym u64 = "64 word"
type_synonym bytes = "u8 list"

text \<open>The value of a buffer read as a little-endian integer.\<close>

fun le_nat :: "bytes \<Rightarrow> nat" where
  "le_nat [] = 0"
| "le_nat (b # bs) = unat b + 256 * le_nat bs"

text \<open>The \<open>n\<close> bytes of a number, least significant first.\<close>

fun nat_to_le :: "nat \<Rightarrow> nat \<Rightarrow> bytes" where
  "nat_to_le 0 v = []"
| "nat_to_le (Suc n) v = word_of_nat (v mod 256) # nat_to_le n (v div 256)"

text \<open>
  Modelled from the spec: \<^verbatim>\<open>CRYPTO_load_u64_le\<close> (declared in \<^verbatim>\<open>../internal.h\<close>, not among
  the sources) reads eight bytes at a pointer as a little-endian 64-bit integer; the
  spec has S "read as a little-endian 256-bit integer" limb by limb.
\<close>

definition CRYPTO_load_u64_le :: "bytes \<Rightarrow> u64" where
  "CRYPTO_load_u64_le p = word_of_nat (le_nat (take 8 p))"

text \<open>
  Modelled from the spec: \<^verbatim>\<open>CRYPTO_memcmp\<close> (in \<^verbatim>\<open>mem.c\<close>, not among the sources) is
  the "constant-time equality comparison over byte buffers": it returns 0 exactly when
  the first \<open>len\<close> bytes agree.
\<close>

definition CRYPTO_memcmp :: "bytes \<Rightarrow> bytes \<Rightarrow> nat \<Rightarrow> int" where
  "CRYPTO_memcmp a b len = (if take len a = take len b then 0 else 1)"

text \<open>
  Modelled from the spec: \<^verbatim>\<open>OPENSSL_cleanse\<close> (in \<^verbatim>\<open>mem.c\<close>, not among the sources)
  overwrites \<open>len\<close> bytes with the secret-erasing pattern, which is zero.
\<close>

definition OPENSSL_cleanse :: "bytes \<Rightarrow> nat \<Rightarrow> bytes" where
  "OPENSSL_cleanse p len = replicate (min len (length p)) 0 @ drop len p"

text \<open>\<^verbatim>\<open>OPENSSL_memcpy(dst, src, n)\<close> into a fresh local array of \<open>n\<close> bytes.\<close>

definition OPENSSL_memcpy :: "bytes \<Rightarrow> nat \<Rightarrow> bytes" where
  "OPENSSL_memcpy src n = take n src"

text \<open>
  The three statements that clamp a scalar held in a buffer:
  \<^verbatim>\<open>e[0] &= 248; e[31] &= 127; e[31] |= 64;\<close>
\<close>

definition clamp :: "bytes \<Rightarrow> bytes" where
  "clamp e0 =
    (let e1 = e0[0 := e0 ! 0 AND 248];
         e2 = e1[31 := e1 ! 31 AND 127];
         e3 = e2[31 := e2 ! 31 OR 64]
     in e3)"

section \<open>The group order\<close>

text \<open>\<^verbatim>\<open>kOrder\<close> of \<^verbatim>\<open>ED25519_verify\<close>: the order of the group in four little-endian limbs.\<close>

definition kOrder :: "u64 list" where
  "kOrder = [0x5812631a5cf5d3ed, 0x14def9dea2f79cd6, 0, 0x1000000000000000]"

text \<open>The group order \<open>2^252 + 27742317777372353535851937790883648493\<close> as a number.\<close>

definition group_order :: nat where
  "group_order = 2 ^ 252 + 27742317777372353535851937790883648493"

section \<open>The arithmetic engine and the hash, as the program calls them\<close>

text \<open>
  \<^verbatim>\<open>ge_p3\<close> (declared in \<^verbatim>\<open>internal.h\<close>) is a point in extended coordinates, four field
  elements. The field element types \<^verbatim>\<open>fe\<close> and \<^verbatim>\<open>fe_loose\<close> and the point type
  \<^verbatim>\<open>ge_p2\<close> stay abstract.
\<close>

record 'fe ge_p3 =
  X :: 'fe
  Y :: 'fe
  Z :: 'fe
  T :: 'fe

text \<open>
  The functions of the arithmetic engine and the hash that the Ed25519 code calls. None
  of them is among the sources: they are parameters of the program. A function that
  takes \<^verbatim>\<open>const uint8_t a[32]\<close> is given the 32 bytes it reads;
  \<^verbatim>\<open>x25519_sc_reduce\<close> works in place on 64 bytes and gives the buffer after the call.
\<close>

record ('fe, 'fl, 'p2) engine =
  SHA512 :: "bytes \<Rightarrow> bytes"
  x25519_ge_frombytes_vartime :: "bytes \<Rightarrow> 'fe ge_p3 option"
  fe_neg :: "'fe \<Rightarrow> 'fl"
  fe_carry :: "'fl \<Rightarrow> 'fe"
  x25519_sc_reduce :: "bytes \<Rightarrow> bytes"
  sc_muladd :: "bytes \<Rightarrow> bytes \<Rightarrow> bytes \<Rightarrow> bytes"
  x25519_ge_scalarmult_base :: "bytes \<Rightarrow> 'fe ge_p3"
  ge_p3_tobytes :: "'fe ge_p3 \<Rightarrow> bytes"
  ge_double_scalarmult_vartime :: "bytes \<Rightarrow> 'fe ge_p3 \<Rightarrow> bytes \<Rightarrow> 'p2"
  x25519_ge_tobytes :: "'p2 \<Rightarrow> bytes"

text \<open>
  The incremental hash: a \<^verbatim>\<open>SHA512_CTX\<close> is the input absorbed so far, and
  \<^verbatim>\<open>SHA512_Final\<close> is the digest of it.
\<close>

definition SHA512_Init :: "bytes" where
  "SHA512_Init = []"

definition SHA512_Update :: "bytes \<Rightarrow> bytes \<Rightarrow> nat \<Rightarrow> bytes" where
  "SHA512_Update hash_ctx data len = hash_ctx @ take len data"

definition SHA512_Final :: "('fe, 'fl, 'p2) engine \<Rightarrow> bytes \<Rightarrow> bytes" where
  "SHA512_Final E hash_ctx = SHA512 E hash_ctx"

section \<open>ED25519_verify\<close>

text \<open>
  The loop of \<^verbatim>\<open>ED25519_verify\<close> over the limbs of \<^verbatim>\<open>scopy\<close>, from \<^verbatim>\<open>i = 3\<close> down:
  it leaves by \<^verbatim>\<open>return 0\<close> or by \<^verbatim>\<open>break\<close>.
\<close>

datatype loop_exit = Return int | Break

function order_loop :: "nat \<Rightarrow> bytes \<Rightarrow> loop_exit" where
  "order_loop i scopy =
    (let word = CRYPTO_load_u64_le (drop (i * 8) scopy) in
     if word > kOrder ! i then Return 0
     else if word < kOrder ! i then Break
     else if i = 0 then Return 0
     else order_loop (i - 1) scopy)"
  by pat_completeness auto
termination
  by (relation "measure (\<lambda>(i, scopy). i)") auto

declare order_loop.simps [simp del]

definition ED25519_verify ::
  "('fe, 'fl, 'p2) engine \<Rightarrow> bytes \<Rightarrow> bytes \<Rightarrow> bytes \<Rightarrow> int" where
  "ED25519_verify E message signature public_key =
    (if signature ! 63 AND 224 \<noteq> 0 then 0
     else case x25519_ge_frombytes_vartime E (take 32 public_key) of
       None \<Rightarrow> 0
     | Some A0 \<Rightarrow>
        (let t = fe_neg E (X A0);
             A1 = A0\<lparr>X := fe_carry E t\<rparr>;
             t = fe_neg E (T A1);
             A = A1\<lparr>T := fe_carry E t\<rparr>;
             pkcopy = OPENSSL_memcpy public_key 32;
             rcopy = OPENSSL_memcpy signature 32;
             scopy = OPENSSL_memcpy (drop 32 signature) 32
         in case order_loop 3 scopy of
              Return r \<Rightarrow> r
            | Break \<Rightarrow>
               (let hash_ctx = SHA512_Init;
                    hash_ctx = SHA512_Update hash_ctx signature 32;
                    hash_ctx = SHA512_Update hash_ctx public_key 32;
                    hash_ctx = SHA512_Update hash_ctx message (length message);
                    h = SHA512_Final E hash_ctx;
                    h = x25519_sc_reduce E h;
                    R = ge_double_scalarmult_vartime E (take 32 h) A scopy;
                    rcheck = x25519_ge_tobytes E R
                in if CRYPTO_memcmp rcheck rcopy 32 = 0 then 1 else 0)))"

section \<open>Key generation and signing\<close>

text \<open>
  \<^verbatim>\<open>ED25519_SEED_LEN\<close>, from \<^verbatim>\<open>openssl/curve25519.h\<close>. (\<^verbatim>\<open>SHA512_DIGEST_LENGTH\<close> is 64:
  a digest buffer is the 64 bytes the hash returns.)
\<close>

definition ED25519_SEED_LEN :: nat where
  "ED25519_SEED_LEN = 32"

text \<open>
  \<^verbatim>\<open>RAND_bytes(buf, len)\<close> fills \<open>len\<close> bytes from the system's random source; the
  bytes the source delivers are an input of the model.
\<close>

definition RAND_bytes :: "bytes \<Rightarrow> nat \<Rightarrow> bytes" where
  "RAND_bytes entropy len = take len entropy"

text \<open>
  What a function leaves behind when it returns: its output buffers, and its local
  scratch buffers as they stand at the \<^verbatim>\<open>return\<close>. The scratch is part of the result so
  that erasure can be stated.
\<close>

record keypair_from_seed_exit =
  kfs_out_public_key :: bytes
  kfs_out_private_key :: bytes
  kfs_az :: bytes

definition ED25519_keypair_from_seed ::
  "('fe, 'fl, 'p2) engine \<Rightarrow> bytes \<Rightarrow> keypair_from_seed_exit" where
  "ED25519_keypair_from_seed E seed =
    (let az = SHA512 E (take ED25519_SEED_LEN seed);
         az = az[0 := az ! 0 AND 248];
         az = az[31 := az ! 31 AND 127];
         az = az[31 := az ! 31 OR 64];
         A = x25519_ge_scalarmult_base E (take 32 az);
         out_public_key = ge_p3_tobytes E A;
         out_private_key = OPENSSL_memcpy seed ED25519_SEED_LEN
                           @ OPENSSL_memcpy out_public_key 32
     in \<lparr>kfs_out_public_key = out_public_key,
         kfs_out_private_key = out_private_key,
         kfs_az = az\<rparr>)"

record keypair_exit =
  kp_out_public_key :: bytes
  kp_out_private_key :: bytes
  kp_seed :: bytes

definition ED25519_keypair ::
  "('fe, 'fl, 'p2) engine \<Rightarrow> bytes \<Rightarrow> keypair_exit" where
  "ED25519_keypair E entropy =
    (let seed = RAND_bytes entropy ED25519_SEED_LEN;
         kfs = ED25519_keypair_from_seed E seed;
         seed = OPENSSL_cleanse seed ED25519_SEED_LEN
     in \<lparr>kp_out_public_key = kfs_out_public_key kfs,
         kp_out_private_key = kfs_out_private_key kfs,
         kp_seed = seed\<rparr>)"

record sign_exit =
  sign_ret :: int
  sign_out_sig :: bytes
  sign_az :: bytes
  sign_nonce :: bytes
  sign_hram :: bytes

definition ED25519_sign ::
  "('fe, 'fl, 'p2) engine \<Rightarrow> bytes \<Rightarrow> bytes \<Rightarrow> sign_exit" where
  "ED25519_sign E message private_key =
    (let az = SHA512 E (take 32 private_key);
         az = az[0 := az ! 0 AND 248];
         az = az[31 := az ! 31 AND 63];
         az = az[31 := az ! 31 OR 64];
         hash_ctx = SHA512_Init;
         hash_ctx = SHA512_Update hash_ctx (drop 32 az) 32;
         hash_ctx = SHA512_Update hash_ctx message (length message);
         nonce = SHA512_Final E hash_ctx;
         nonce = x25519_sc_reduce E nonce;
         R = x25519_ge_scalarmult_base E (take 32 nonce);
         out_sig = ge_p3_tobytes E R;
         hash_ctx = SHA512_Init;
         hash_ctx = SHA512_Update hash_ctx out_sig 32;
         hash_ctx = SHA512_Update hash_ctx (drop 32 private_key) 32;
         hash_ctx = SHA512_Update hash_ctx message (length message);
         hram = SHA512_Final E hash_ctx;
         hram = x25519_sc_reduce E hram;
         out_sig = take 32 out_sig @ sc_muladd E (take 32 hram) (take 32 az) (take 32 nonce)
     in \<lparr>sign_ret = 1, sign_out_sig = out_sig, sign_az = az,
         sign_nonce = nonce, sign_hram = hram\<rparr>)"

section \<open>The build, the CPU and the X25519 backends\<close>

text \<open>
  The preprocessor symbols the file tests and the three CPU queries it calls
  (\<^verbatim>\<open>../fipsmodule/cpucap/internal.h\<close>), as one record.
\<close>

datatype arch = OPENSSL_X86_64 | OPENSSL_AARCH64 | OTHER_ARCH

record platform =
  target_arch :: arch
  MY_ASSEMBLER_IS_TOO_OLD_FOR_AVX :: bool
  OPENSSL_LINUX :: bool
  OPENSSL_APPLE :: bool
  OPENSSL_NO_ASM :: bool
  CRYPTO_is_ARMv8_wide_multiplier_capable :: int
  CRYPTO_is_BMI2_capable :: int
  CRYPTO_is_ADX_capable :: int

definition CURVE25519_S2N_BIGNUM_CAPABLE :: "platform \<Rightarrow> bool" where
  "CURVE25519_S2N_BIGNUM_CAPABLE cfg =
    (((target_arch cfg = OPENSSL_X86_64 \<and> \<not> MY_ASSEMBLER_IS_TOO_OLD_FOR_AVX cfg)
       \<or> target_arch cfg = OPENSSL_AARCH64)
     \<and> (OPENSSL_LINUX cfg \<or> OPENSSL_APPLE cfg)
     \<and> \<not> OPENSSL_NO_ASM cfg)"

definition x25519_s2n_bignum_capable :: "platform \<Rightarrow> int" where
  "x25519_s2n_bignum_capable cfg = (if CURVE25519_S2N_BIGNUM_CAPABLE cfg then 1 else 0)"

definition x25519_s2n_bignum_alt_capable :: "platform \<Rightarrow> int" where
  "x25519_s2n_bignum_alt_capable cfg =
    (case target_arch cfg of
       OPENSSL_X86_64 \<Rightarrow> 1
     | OPENSSL_AARCH64 \<Rightarrow>
         (if CRYPTO_is_ARMv8_wide_multiplier_capable cfg = 1 then 1 else 0)
     | OTHER_ARCH \<Rightarrow> 0)"

definition x25519_s2n_bignum_no_alt_capable :: "platform \<Rightarrow> int" where
  "x25519_s2n_bignum_no_alt_capable cfg =
    (case target_arch cfg of
       OPENSSL_X86_64 \<Rightarrow>
         (if CRYPTO_is_BMI2_capable cfg = 1 \<and> CRYPTO_is_ADX_capable cfg = 1 then 1 else 0)
     | OPENSSL_AARCH64 \<Rightarrow> 1
     | OTHER_ARCH \<Rightarrow> 0)"

text \<open>
  The scalar multiplications the X25519 code calls: the four s2n-bignum routines
  (\<^verbatim>\<open>third_party/s2n-bignum\<close>) and the two portable ones (\<^verbatim>\<open>curve25519_nohw.c\<close>). None is
  among the sources: they are parameters, each a function from the bytes it reads to
  the 32 bytes it writes.
\<close>

record backends =
  s2n_curve25519_x25519_byte :: "bytes \<Rightarrow> bytes \<Rightarrow> bytes"
  s2n_curve25519_x25519_byte_alt :: "bytes \<Rightarrow> bytes \<Rightarrow> bytes"
  s2n_curve25519_x25519base_byte :: "bytes \<Rightarrow> bytes"
  s2n_curve25519_x25519base_byte_alt :: "bytes \<Rightarrow> bytes"
  x25519_scalar_mult_generic_nohw :: "bytes \<Rightarrow> bytes \<Rightarrow> bytes"
  x25519_public_from_private_nohw :: "bytes \<Rightarrow> bytes"

text \<open>
  The caller's buffers live in a store, one buffer per pointer, so that two arguments
  may be the same buffer. \<^verbatim>\<open>abort()\<close> ends the process: a call that reaches it has the
  result \<open>Inl Abort\<close>.
\<close>

type_synonym ptr = nat
type_synonym mem = "ptr \<Rightarrow> bytes"

datatype fatal = Abort

text \<open>
  The four routines as the file sees them: the s2n-bignum ones when
  \<^verbatim>\<open>CURVE25519_S2N_BIGNUM_CAPABLE\<close> is defined, the stubs that abort otherwise. The scalar
  is always a local array of the caller, passed by value.
\<close>

definition curve25519_x25519_byte ::
  "platform \<Rightarrow> backends \<Rightarrow> ptr \<Rightarrow> bytes \<Rightarrow> ptr \<Rightarrow> mem \<Rightarrow> fatal + mem" where
  "curve25519_x25519_byte cfg B res scalar point m =
    (if CURVE25519_S2N_BIGNUM_CAPABLE cfg
     then Inr (m(res := s2n_curve25519_x25519_byte B (take 32 scalar) (take 32 (m point))))
     else Inl Abort)"

definition curve25519_x25519_byte_alt ::
  "platform \<Rightarrow> backends \<Rightarrow> ptr \<Rightarrow> bytes \<Rightarrow> ptr \<Rightarrow> mem \<Rightarrow> fatal + mem" where
  "curve25519_x25519_byte_alt cfg B res scalar point m =
    (if CURVE25519_S2N_BIGNUM_CAPABLE cfg
     then Inr (m(res := s2n_curve25519_x25519_byte_alt B (take 32 scalar) (take 32 (m point))))
     else Inl Abort)"

definition curve25519_x25519base_byte ::
  "platform \<Rightarrow> backends \<Rightarrow> ptr \<Rightarrow> bytes \<Rightarrow> mem \<Rightarrow> fatal + mem" where
  "curve25519_x25519base_byte cfg B res scalar m =
    (if CURVE25519_S2N_BIGNUM_CAPABLE cfg
     then Inr (m(res := s2n_curve25519_x25519base_byte B (take 32 scalar)))
     else Inl Abort)"

definition curve25519_x25519base_byte_alt ::
  "platform \<Rightarrow> backends \<Rightarrow> ptr \<Rightarrow> bytes \<Rightarrow> mem \<Rightarrow> fatal + mem" where
  "curve25519_x25519base_byte_alt cfg B res scalar m =
    (if CURVE25519_S2N_BIGNUM_CAPABLE cfg
     then Inr (m(res := s2n_curve25519_x25519base_byte_alt B (take 32 scalar)))
     else Inl Abort)"

section \<open>X25519\<close>

text \<open>
  What \<^verbatim>\<open>x25519_s2n_bignum\<close> and \<^verbatim>\<open>x25519_s2n_bignum_public_from_private\<close> leave behind
  when they return: the store, and the local \<^verbatim>\<open>private_key_internal_demask\<close>.
\<close>

record s2n_exit =
  s2n_mem :: mem
  s2n_private_key_internal_demask :: bytes

definition s2n_return :: "bytes \<Rightarrow> fatal + mem \<Rightarrow> fatal + s2n_exit" where
  "s2n_return private_key_internal_demask r =
    (case r of
       Inl a \<Rightarrow> Inl a
     | Inr m \<Rightarrow> Inr \<lparr>s2n_mem = m,
                     s2n_private_key_internal_demask = private_key_internal_demask\<rparr>)"

definition x25519_s2n_bignum ::
  "platform \<Rightarrow> backends \<Rightarrow> ptr \<Rightarrow> ptr \<Rightarrow> ptr \<Rightarrow> mem \<Rightarrow> fatal + s2n_exit" where
  "x25519_s2n_bignum cfg B out_shared_key private_key peer_public_value m =
    (let d = OPENSSL_memcpy (m private_key) 32;
         d = d[0 := d ! 0 AND 248];
         d = d[31 := d ! 31 AND 127];
         d = d[31 := d ! 31 OR 64]
     in s2n_return d
       (case target_arch cfg of
          OPENSSL_X86_64 \<Rightarrow>
            if x25519_s2n_bignum_no_alt_capable cfg = 1
            then curve25519_x25519_byte cfg B out_shared_key d peer_public_value m
            else if x25519_s2n_bignum_alt_capable cfg = 1
            then curve25519_x25519_byte_alt cfg B out_shared_key d peer_public_value m
            else Inl Abort
        | OPENSSL_AARCH64 \<Rightarrow>
            if x25519_s2n_bignum_alt_capable cfg = 1
            then curve25519_x25519_byte_alt cfg B out_shared_key d peer_public_value m
            else if x25519_s2n_bignum_no_alt_capable cfg = 1
            then curve25519_x25519_byte cfg B out_shared_key d peer_public_value m
            else Inl Abort
        | OTHER_ARCH \<Rightarrow> Inl Abort))"

definition x25519_s2n_bignum_public_from_private ::
  "platform \<Rightarrow> backends \<Rightarrow> ptr \<Rightarrow> ptr \<Rightarrow> mem \<Rightarrow> fatal + s2n_exit" where
  "x25519_s2n_bignum_public_from_private cfg B out_public_value private_key m =
    (let d = OPENSSL_memcpy (m private_key) 32;
         d = d[0 := d ! 0 AND 248];
         d = d[31 := d ! 31 AND 127];
         d = d[31 := d ! 31 OR 64]
     in s2n_return d
       (case target_arch cfg of
          OPENSSL_X86_64 \<Rightarrow>
            if x25519_s2n_bignum_no_alt_capable cfg = 1
            then curve25519_x25519base_byte cfg B out_public_value d m
            else if x25519_s2n_bignum_alt_capable cfg = 1
            then curve25519_x25519base_byte_alt cfg B out_public_value d m
            else Inl Abort
        | OPENSSL_AARCH64 \<Rightarrow>
            if x25519_s2n_bignum_alt_capable cfg = 1
            then curve25519_x25519base_byte_alt cfg B out_public_value d m
            else if x25519_s2n_bignum_no_alt_capable cfg = 1
            then curve25519_x25519base_byte cfg B out_public_value d m
            else Inl Abort
        | OTHER_ARCH \<Rightarrow> Inl Abort))"

definition X25519_public_from_private ::
  "platform \<Rightarrow> backends \<Rightarrow> ptr \<Rightarrow> ptr \<Rightarrow> mem \<Rightarrow> fatal + mem" where
  "X25519_public_from_private cfg B out_public_value private_key m =
    (if x25519_s2n_bignum_capable cfg = 1
     then (case x25519_s2n_bignum_public_from_private cfg B out_public_value private_key m of
             Inl a \<Rightarrow> Inl a
           | Inr ex \<Rightarrow> Inr (s2n_mem ex))
     else Inr (m(out_public_value :=
                 x25519_public_from_private_nohw B (take 32 (m private_key)))))"

definition X25519_keypair ::
  "platform \<Rightarrow> backends \<Rightarrow> bytes \<Rightarrow> ptr \<Rightarrow> ptr \<Rightarrow> mem \<Rightarrow> fatal + mem" where
  "X25519_keypair cfg B entropy out_public_value out_private_key m =
    (let m = m(out_private_key := RAND_bytes entropy 32);
         m = m(out_private_key :=
                 (m out_private_key)[0 := m out_private_key ! 0 OR NOT 248]);
         m = m(out_private_key :=
                 (m out_private_key)[31 := m out_private_key ! 31 AND NOT 64]);
         m = m(out_private_key :=
                 (m out_private_key)[31 := m out_private_key ! 31 OR NOT 127])
     in X25519_public_from_private cfg B out_public_value out_private_key m)"

definition kZeros :: bytes where
  "kZeros = replicate 32 0"

definition X25519 ::
  "platform \<Rightarrow> backends \<Rightarrow> ptr \<Rightarrow> ptr \<Rightarrow> ptr \<Rightarrow> mem \<Rightarrow> fatal + (mem \<times> int)" where
  "X25519 cfg B out_shared_key private_key peer_public_value m =
    (case (if x25519_s2n_bignum_capable cfg = 1
           then (case x25519_s2n_bignum cfg B out_shared_key private_key peer_public_value m of
                   Inl a \<Rightarrow> Inl a
                 | Inr ex \<Rightarrow> Inr (s2n_mem ex))
           else Inr (m(out_shared_key :=
                       x25519_scalar_mult_generic_nohw B (take 32 (m private_key))
                         (take 32 (m peer_public_value))))) of
       Inl a \<Rightarrow> Inl a
     | Inr m' \<Rightarrow>
         Inr (m', if CRYPTO_memcmp kZeros (m' out_shared_key) 32 \<noteq> 0 then 1 else 0))"

section \<open>What the Ed25519 code expects of the arithmetic engine\<close>

text \<open>
  Modelled from the spec: the arithmetic engine and the hash are not among the sources.
  The spec describes the engine the code calls: "scalar \<times> base point", "point
  encode/decode", "scalar reduction mod group order", "scalar multiply-add mod group
  order" and a "double-scalar multiplication" computing
  "challenge \<times> A + S \<times> base-point". The contract below says
  that of the parameters, for points read through \<open>pt3\<close> and \<open>pt2\<close> as elements of
  an abelian group in which the base point has the group order. A scalar handed to a
  point multiplication has its top bit clear, as the engine requires; the hash returns
  64 bytes.

  \<open>smul n g\<close> is \<open>g\<close> added \<open>n\<close> times.
\<close>

fun smul :: "nat \<Rightarrow> 'g::ab_group_add \<Rightarrow> 'g" where
  "smul 0 g = 0"
| "smul (Suc n) g = g + smul n g"

text \<open>
  The four statements \<^verbatim>\<open>fe_neg(&t, &A.X); fe_carry(&A.X, &t); fe_neg(&t, &A.T);
  fe_carry(&A.T, &t);\<close> of \<^verbatim>\<open>ED25519_verify\<close>, which negate the point.
\<close>

definition negate_p3 :: "('fe, 'fl, 'p2) engine \<Rightarrow> 'fe ge_p3 \<Rightarrow> 'fe ge_p3" where
  "negate_p3 E A = (let A1 = A\<lparr>X := fe_carry E (fe_neg E (X A))\<rparr>
                    in A1\<lparr>T := fe_carry E (fe_neg E (T A1))\<rparr>)"

definition engine_contract ::
  "('fe, 'fl, 'p2) engine \<Rightarrow> ('fe ge_p3 \<Rightarrow> 'g option) \<Rightarrow> ('p2 \<Rightarrow> 'g option)
     \<Rightarrow> 'g::ab_group_add \<Rightarrow> bool" where
  "engine_contract E pt3 pt2 base \<longleftrightarrow>
     (\<forall>m. length (SHA512 E m) = 64)
   \<and> (\<forall>s. length s = 64 \<longrightarrow>
          length (x25519_sc_reduce E s) = 64
        \<and> le_nat (take 32 (x25519_sc_reduce E s)) = le_nat s mod group_order)
   \<and> (\<forall>a b c. length a = 32 \<and> length b = 32 \<and> length c = 32 \<longrightarrow>
          length (sc_muladd E a b c) = 32
        \<and> le_nat (sc_muladd E a b c) = (le_nat a * le_nat b + le_nat c) mod group_order)
   \<and> smul group_order base = 0
   \<and> (\<forall>a. length a = 32 \<and> a ! 31 \<le> 127 \<longrightarrow>
          pt3 (x25519_ge_scalarmult_base E a) = Some (smul (le_nat a) base))
   \<and> (\<forall>A. length (ge_p3_tobytes E A) = 32)
   \<and> (\<forall>A g. pt3 A = Some g \<longrightarrow>
          (\<exists>A'. x25519_ge_frombytes_vartime E (ge_p3_tobytes E A) = Some A' \<and> pt3 A' = Some g))
   \<and> (\<forall>A g. pt3 A = Some g \<longrightarrow> pt3 (negate_p3 E A) = Some (- g))
   \<and> (\<forall>a A b g. length a = 32 \<and> a ! 31 \<le> 127 \<and> length b = 32 \<and> b ! 31 \<le> 127
          \<and> pt3 A = Some g \<longrightarrow>
          pt2 (ge_double_scalarmult_vartime E a A b)
            = Some (smul (le_nat a) g + smul (le_nat b) base))
   \<and> (\<forall>R A g. pt2 R = Some g \<and> pt3 A = Some g \<longrightarrow>
          x25519_ge_tobytes E R = ge_p3_tobytes E A)"

section \<open>A small engine for concrete runs\<close>

text \<open>
  The integers modulo the group order, as an abelian group, and an engine over them: a
  point is its discrete logarithm, kept in the \<open>X\<close> coordinate. It satisfies the
  contract, and every function of it computes.
\<close>

typedef zl = "{n::nat. n < group_order}"
  by (rule exI[of _ 0]) (simp add: group_order_def)

setup_lifting type_definition_zl

instantiation zl :: ab_group_add
begin

lift_definition zero_zl :: zl is 0
  by (simp add: group_order_def)

lift_definition plus_zl :: "zl \<Rightarrow> zl \<Rightarrow> zl" is "\<lambda>a b. (a + b) mod group_order"
  by (simp add: group_order_def)

lift_definition uminus_zl :: "zl \<Rightarrow> zl" is "\<lambda>a. (group_order - a) mod group_order"
  by (simp add: group_order_def)

lift_definition minus_zl :: "zl \<Rightarrow> zl \<Rightarrow> zl" is "\<lambda>a b. (a + (group_order - b) mod group_order) mod group_order"
  by (simp add: group_order_def)

instance
proof
  fix a b c :: zl
  show "a + b + c = a + (b + c)"
    by transfer (simp add: mod_simps ac_simps)
  show "a + b = b + a"
    by transfer (simp add: ac_simps)
  show "0 + a = a"
    by transfer simp
  show "- a + a = 0"
    by transfer (simp add: mod_simps)
  show "a - b = a + - b"
    by transfer simp
qed

end

definition toy_engine :: "(nat, nat, nat) engine" where
  "toy_engine =
    \<lparr>SHA512 = (\<lambda>m. nat_to_le 64 (foldl (\<lambda>h b. 257 * h + unat b + 1) 0 m)),
     x25519_ge_frombytes_vartime =
       (\<lambda>s. if le_nat s < group_order then Some \<lparr>X = le_nat s, Y = 0, Z = 1, T = 0\<rparr> else None),
     fe_neg = (\<lambda>x. group_order - x),
     fe_carry = (\<lambda>x. x mod group_order),
     x25519_sc_reduce = (\<lambda>s. nat_to_le 32 (le_nat s mod group_order) @ drop 32 s),
     sc_muladd = (\<lambda>a b c. nat_to_le 32 ((le_nat a * le_nat b + le_nat c) mod group_order)),
     x25519_ge_scalarmult_base = (\<lambda>a. \<lparr>X = le_nat a mod group_order, Y = 0, Z = 1, T = 0\<rparr>),
     ge_p3_tobytes = (\<lambda>A. nat_to_le 32 (X A)),
     ge_double_scalarmult_vartime = (\<lambda>a A b. (le_nat a * X A + le_nat b) mod group_order),
     x25519_ge_tobytes = (\<lambda>R. nat_to_le 32 R)\<rparr>"

definition toy_pt3 :: "nat ge_p3 \<Rightarrow> zl option" where
  "toy_pt3 A = (if X A < group_order then Some (Abs_zl (X A)) else None)"

definition toy_pt2 :: "nat \<Rightarrow> zl option" where
  "toy_pt2 R = (if R < group_order then Some (Abs_zl R) else None)"

definition toy_base :: zl where
  "toy_base = Abs_zl 1"

section \<open>What the X25519 code expects of its backends\<close>

text \<open>
  Modelled from the spec: the six scalar multiplications are not among the sources.
  The spec has an all-zero result when "peer supplied a small-order / degenerate
  point", and "x25519 with peer public value = all-zero bytes returns ok == false and
  a zero shared secret": each routine maps the all-zero point to the all-zero output.
\<close>

definition zero_point_gives_zero :: "backends \<Rightarrow> bool" where
  "zero_point_gives_zero B \<longleftrightarrow>
     (\<forall>k. length k = 32 \<longrightarrow>
        s2n_curve25519_x25519_byte B k (replicate 32 0) = replicate 32 0
      \<and> s2n_curve25519_x25519_byte_alt B k (replicate 32 0) = replicate 32 0
      \<and> x25519_scalar_mult_generic_nohw B k (replicate 32 0) = replicate 32 0)"

text \<open>
  Modelled from the spec: "output bytes must be bit-identical across all backends for
  the same input". The two s2n-bignum routines get the clamped scalar from their
  caller; the portable routines get the stored key and clamp it themselves ("clamp a
  local copy of the 32-byte private scalar").
\<close>

definition backends_agree :: "backends \<Rightarrow> bool" where
  "backends_agree B \<longleftrightarrow>
     (\<forall>k p. length k = 32 \<and> length p = 32 \<longrightarrow>
        s2n_curve25519_x25519_byte_alt B k p = s2n_curve25519_x25519_byte B k p
      \<and> x25519_scalar_mult_generic_nohw B k p = s2n_curve25519_x25519_byte B (clamp k) p)
   \<and> (\<forall>k. length k = 32 \<longrightarrow>
        s2n_curve25519_x25519base_byte_alt B k = s2n_curve25519_x25519base_byte B k
      \<and> x25519_public_from_private_nohw B k = s2n_curve25519_x25519base_byte B (clamp k))"

text \<open>
  Modelled from the spec: the portable routines read the stored key only through its
  clamped copy.
\<close>

definition nohw_reads_clamped :: "backends \<Rightarrow> bool" where
  "nohw_reads_clamped B \<longleftrightarrow>
     (\<forall>k k' p. length k = 32 \<and> length k' = 32 \<and> clamp k = clamp k' \<longrightarrow>
        x25519_scalar_mult_generic_nohw B k p = x25519_scalar_mult_generic_nohw B k' p
      \<and> x25519_public_from_private_nohw B k = x25519_public_from_private_nohw B k')"

text \<open>
  The bytes the dispatch of \<^verbatim>\<open>X25519\<close> and of \<^verbatim>\<open>X25519_public_from_private\<close> ends up
  writing, read off the program: \<open>X25519_eq\<close> and \<open>X25519_public_from_private_eq\<close> below
  prove that the program writes them.
\<close>

definition selected_shared_key :: "platform \<Rightarrow> backends \<Rightarrow> bytes \<Rightarrow> bytes \<Rightarrow> bytes" where
  "selected_shared_key cfg B k p =
    (if \<not> CURVE25519_S2N_BIGNUM_CAPABLE cfg
     then x25519_scalar_mult_generic_nohw B (take 32 k) (take 32 p)
     else if target_arch cfg = OPENSSL_X86_64 \<and> x25519_s2n_bignum_no_alt_capable cfg = 1
           \<or> target_arch cfg = OPENSSL_AARCH64 \<and> x25519_s2n_bignum_alt_capable cfg \<noteq> 1
     then s2n_curve25519_x25519_byte B (clamp (take 32 k)) (take 32 p)
     else s2n_curve25519_x25519_byte_alt B (clamp (take 32 k)) (take 32 p))"

definition selected_public_value :: "platform \<Rightarrow> backends \<Rightarrow> bytes \<Rightarrow> bytes" where
  "selected_public_value cfg B k =
    (if \<not> CURVE25519_S2N_BIGNUM_CAPABLE cfg
     then x25519_public_from_private_nohw B (take 32 k)
     else if target_arch cfg = OPENSSL_X86_64 \<and> x25519_s2n_bignum_no_alt_capable cfg = 1
           \<or> target_arch cfg = OPENSSL_AARCH64 \<and> x25519_s2n_bignum_alt_capable cfg \<noteq> 1
     then s2n_curve25519_x25519base_byte B (clamp (take 32 k))
     else s2n_curve25519_x25519base_byte_alt B (clamp (take 32 k)))"

section \<open>Backends, platforms and a store for concrete runs\<close>

text \<open>
  A backend set in which all routines compute the same function (a multiplication
  modulo \<open>2^255 - 19\<close>, the portable ones after clamping), and one in which every
  routine writes bytes of its own, so that a run shows which routine was called.
\<close>

definition toy_mult :: "bytes \<Rightarrow> bytes \<Rightarrow> bytes" where
  "toy_mult k p = nat_to_le 32 ((le_nat k * le_nat p) mod (2 ^ 255 - 19))"

definition toy_backends :: backends where
  "toy_backends =
    \<lparr>s2n_curve25519_x25519_byte = toy_mult,
     s2n_curve25519_x25519_byte_alt = toy_mult,
     s2n_curve25519_x25519base_byte = (\<lambda>k. toy_mult k (nat_to_le 32 9)),
     s2n_curve25519_x25519base_byte_alt = (\<lambda>k. toy_mult k (nat_to_le 32 9)),
     x25519_scalar_mult_generic_nohw = (\<lambda>k p. toy_mult (clamp k) p),
     x25519_public_from_private_nohw = (\<lambda>k. toy_mult (clamp k) (nat_to_le 32 9))\<rparr>"

definition probe_backends :: backends where
  "probe_backends =
    \<lparr>s2n_curve25519_x25519_byte = (\<lambda>k p. replicate 32 1),
     s2n_curve25519_x25519_byte_alt = (\<lambda>k p. replicate 32 2),
     s2n_curve25519_x25519base_byte = (\<lambda>k. replicate 32 3),
     s2n_curve25519_x25519base_byte_alt = (\<lambda>k. replicate 32 4),
     x25519_scalar_mult_generic_nohw = (\<lambda>k p. replicate 32 5),
     x25519_public_from_private_nohw = (\<lambda>k. replicate 32 6)\<rparr>"

definition x86_64_linux :: "int \<Rightarrow> int \<Rightarrow> platform" where
  "x86_64_linux bmi2 adx =
    \<lparr>target_arch = OPENSSL_X86_64, MY_ASSEMBLER_IS_TOO_OLD_FOR_AVX = False,
     OPENSSL_LINUX = True, OPENSSL_APPLE = False, OPENSSL_NO_ASM = False,
     CRYPTO_is_ARMv8_wide_multiplier_capable = 0,
     CRYPTO_is_BMI2_capable = bmi2, CRYPTO_is_ADX_capable = adx\<rparr>"

definition aarch64_linux :: "int \<Rightarrow> platform" where
  "aarch64_linux wide =
    \<lparr>target_arch = OPENSSL_AARCH64, MY_ASSEMBLER_IS_TOO_OLD_FOR_AVX = False,
     OPENSSL_LINUX = True, OPENSSL_APPLE = False, OPENSSL_NO_ASM = False,
     CRYPTO_is_ARMv8_wide_multiplier_capable = wide,
     CRYPTO_is_BMI2_capable = 0, CRYPTO_is_ADX_capable = 0\<rparr>"

definition other_linux :: platform where
  "other_linux =
    \<lparr>target_arch = OTHER_ARCH, MY_ASSEMBLER_IS_TOO_OLD_FOR_AVX = False,
     OPENSSL_LINUX = True, OPENSSL_APPLE = False, OPENSSL_NO_ASM = False,
     CRYPTO_is_ARMv8_wide_multiplier_capable = 0,
     CRYPTO_is_BMI2_capable = 0, CRYPTO_is_ADX_capable = 0\<rparr>"

definition x86_64_no_asm :: platform where
  "x86_64_no_asm = (x86_64_linux 1 1)\<lparr>OPENSSL_NO_ASM := True\<rparr>"

text \<open>
  A store with a private key at pointer 1 and a peer value at pointer 2; every other
  buffer holds 32 zero bytes.
\<close>

definition store :: "bytes \<Rightarrow> bytes \<Rightarrow> mem" where
  "store private_key peer_public_value =
    (\<lambda>p. if p = 1 then private_key else if p = 2 then peer_public_value else replicate 32 0)"

section \<open>Little-endian numbers and the limbs of the order\<close>

lemma le_nat_append: "le_nat (xs @ ys) = le_nat xs + 256 ^ length xs * le_nat ys"
  by (induction xs) (simp_all add: algebra_simps)

lemma le_nat_bound: "le_nat xs < 256 ^ length xs"
proof (induction xs)
  case Nil show ?case by simp
next
  case (Cons b bs)
  have "unat b < 2 ^ LENGTH(8)" by (rule unsigned_less)
  then have "unat b < 256" by simp
  with Cons show ?case by simp
qed

lemma load_unat: "unat (CRYPTO_load_u64_le p) = le_nat (take 8 p)"
proof -
  have "le_nat (take 8 p) < 256 ^ length (take 8 p)" by (rule le_nat_bound)
  also have "\<dots> \<le> 256 ^ 8" by (rule power_increasing) simp_all
  finally have "le_nat (take 8 p) < 2 ^ 64" by simp
  then show ?thesis unfolding CRYPTO_load_u64_le_def
    by (simp add: unat_of_nat)
qed

lemma limbs:
  assumes "length s = 32"
  shows "le_nat s = le_nat (take 8 s) + 2 ^ 64 * le_nat (take 8 (drop 8 s))
     + 2 ^ 128 * le_nat (take 8 (drop 16 s)) + 2 ^ 192 * le_nat (take 8 (drop 24 s))"
proof -
  have "s = take 8 s @ take 8 (drop 8 s) @ take 8 (drop 16 s) @ take 8 (drop 24 s)"
  proof -
    have "s = take 8 s @ drop 8 s" by simp
    moreover have "drop 8 s = take 8 (drop 8 s) @ drop 16 s"
      using append_take_drop_id[of 8 "drop 8 s"] by simp
    moreover have "drop 16 s = take 8 (drop 16 s) @ drop 24 s"
      using append_take_drop_id[of 8 "drop 16 s"] by simp
    moreover have "drop 24 s = take 8 (drop 24 s)" using assms by simp
    ultimately show ?thesis by metis
  qed
  then have "le_nat s = le_nat (take 8 s @ take 8 (drop 8 s) @ take 8 (drop 16 s) @ take 8 (drop 24 s))" by simp
  also have "\<dots> = le_nat (take 8 s) + 2 ^ 64 * le_nat (take 8 (drop 8 s))
     + 2 ^ 128 * le_nat (take 8 (drop 16 s)) + 2 ^ 192 * le_nat (take 8 (drop 24 s))"
    using assms by (simp add: le_nat_append algebra_simps)
  finally show ?thesis .
qed

lemma lex_lt:
  fixes a0 b0 a1 b1 M :: nat
  assumes "a0 < M" "b0 < M"
  shows "(a0 + M * a1 < b0 + M * b1) = (a1 < b1 \<or> a1 = b1 \<and> a0 < b0)"
proof (cases "a1 < b1")
  case True
  then have "Suc a1 \<le> b1" by simp
  then have "M * Suc a1 \<le> M * b1" by (rule mult_le_mono2)
  with assms True show ?thesis by simp
next
  case False
  show ?thesis
  proof (cases "a1 = b1")
    case True then show ?thesis by simp
  next
    case ne: False
    with False have "Suc b1 \<le> a1" by simp
    then have "M * Suc b1 \<le> M * a1" by (rule mult_le_mono2)
    with assms False ne show ?thesis by simp
  qed
qed

lemma lex_eq:
  fixes a0 b0 a1 b1 M :: nat
  assumes "a0 < M" "b0 < M"
  shows "(a0 + M * a1 = b0 + M * b1) = (a1 = b1 \<and> a0 = b0)"
  using lex_lt[OF assms, of a1 b1] lex_lt[OF assms(2) assms(1), of b1 a1] by auto

lemma order_loop_3:
  assumes len: "length s = 32"
  shows "order_loop 3 s = (if le_nat s < group_order then Break else Return 0)"
proof -
  define a0 where "a0 = le_nat (take 8 s)"
  define a1 where "a1 = le_nat (take 8 (drop 8 s))"
  define a2 where "a2 = le_nat (take 8 (drop 16 s))"
  define a3 where "a3 = le_nat (take 8 (drop 24 s))"
  have b: "le_nat (take 8 xs) < 2 ^ 64" for xs
    using load_unat[of xs] unsigned_less[of "CRYPTO_load_u64_le xs", where 'a=nat] by simp
  have b0: "a0 < 2 ^ 64" and b1: "a1 < 2 ^ 64" and b2: "a2 < 2 ^ 64" and b3: "a3 < 2 ^ 64"
    unfolding a0_def a1_def a2_def a3_def using b by blast+
  have val: "le_nat s = a0 + 2 ^ 64 * (a1 + 2 ^ 64 * (a2 + 2 ^ 64 * a3))"
    unfolding a0_def a1_def a2_def a3_def using limbs[OF len] by simp
  have L: "group_order = 0x5812631a5cf5d3ed + 2 ^ 64 * (0x14def9dea2f79cd6 + 2 ^ 64 * (0 + 2 ^ 64 * 0x1000000000000000))"
    by (simp add: group_order_def)
  have w0: "unat (CRYPTO_load_u64_le (drop (0 * 8) s)) = a0"
    and w1: "unat (CRYPTO_load_u64_le (drop (1 * 8) s)) = a1"
    and w2: "unat (CRYPTO_load_u64_le (drop (2 * 8) s)) = a2"
    and w3: "unat (CRYPTO_load_u64_le (drop (3 * 8) s)) = a3"
    by (simp_all add: load_unat a0_def a1_def a2_def a3_def)
  have s0: "order_loop 0 s = (if a0 < 0x5812631a5cf5d3ed then Break else Return 0)"
    using w0 by (subst order_loop.simps) (simp add: Let_def word_less_nat_alt kOrder_def)
  have s1: "order_loop 1 s = (if 0x14def9dea2f79cd6 < a1 then Return 0
       else if a1 < 0x14def9dea2f79cd6 then Break else order_loop 0 s)"
    using w1 by (subst order_loop.simps) (simp add: Let_def word_less_nat_alt kOrder_def)
  have s2: "order_loop 2 s = (if 0 < a2 then Return 0 else order_loop 1 s)"
    using w2 by (subst order_loop.simps) (simp add: Let_def word_less_nat_alt kOrder_def)
  have s3: "order_loop 3 s = (if 0x1000000000000000 < a3 then Return 0
       else if a3 < 0x1000000000000000 then Break else order_loop 2 s)"
    using w3 by (subst order_loop.simps) (simp add: Let_def word_less_nat_alt kOrder_def)
  have "(le_nat s < group_order) =
      (a3 < 0x1000000000000000 \<or> a3 = 0x1000000000000000 \<and>
        (a2 < 0 \<or> a2 = 0 \<and> (a1 < 0x14def9dea2f79cd6 \<or> a1 = 0x14def9dea2f79cd6 \<and> a0 < 0x5812631a5cf5d3ed)))"
  proof -
    have k0: "(0x5812631a5cf5d3ed::nat) < 2 ^ 64" and k1: "(0x14def9dea2f79cd6::nat) < 2 ^ 64"
      and k2: "(0::nat) < 2 ^ 64" by simp_all
    show ?thesis
      unfolding val L lex_lt[OF b0 k0] lex_lt[OF b1 k1] lex_lt[OF b2 k2]
        lex_eq[OF b1 k1] lex_eq[OF b2 k2]
      by auto
  qed
  then show ?thesis
    unfolding s3 s2 s1 s0 by auto
qed

lemma length_nat_to_le [simp]: "length (nat_to_le n v) = n"
  by (induction n arbitrary: v) simp_all

lemma le_nat_nat_to_le: "le_nat (nat_to_le n v) = v mod 256 ^ n"
proof (induction n arbitrary: v)
  case 0 show ?case by simp
next
  case (Suc n)
  have "unat (word_of_nat (v mod 256) :: u8) = v mod 256"
    by (simp add: unat_of_nat)
  then have "le_nat (nat_to_le (Suc n) v) = v mod 256 + 256 * ((v div 256) mod 256 ^ n)"
    using Suc by simp
  also have "\<dots> = v mod 256 ^ Suc n"
    by (simp add: mod_mult2_eq)
  finally show ?case .
qed

lemma group_order_pos: "0 < group_order"
  by (simp add: group_order_def)

lemma smul_zl: "x < group_order \<Longrightarrow> smul n (Abs_zl x) = Abs_zl ((n * x) mod group_order)"
proof (induction n)
  case 0
  show ?case by (simp add: zero_zl_def)
next
  case (Suc n)
  have "Abs_zl x + Abs_zl ((n * x) mod group_order) = Abs_zl ((x + (n * x) mod group_order) mod group_order)"
    using Suc.prems group_order_pos
    by (simp add: plus_zl_def Abs_zl_inverse)
  then show ?case using Suc by (simp add: mod_simps)
qed

lemma le_nat_to_le_32: "v < group_order \<Longrightarrow> le_nat (nat_to_le 32 v) = v"
proof -
  assume "v < group_order"
  also have "group_order < 256 ^ 32" by (simp add: group_order_def)
  finally show ?thesis by (simp add: le_nat_nat_to_le)
qed

lemma toy_sha: "length (SHA512 toy_engine m) = 64"
  by (simp add: toy_engine_def)

lemma toy_reduce:
  "length s = 64 \<Longrightarrow> length (x25519_sc_reduce toy_engine s) = 64
     \<and> le_nat (take 32 (x25519_sc_reduce toy_engine s)) = le_nat s mod group_order"
  using group_order_pos by (simp add: toy_engine_def le_nat_to_le_32)

lemma toy_muladd:
  "length (sc_muladd toy_engine a b c) = 32
     \<and> le_nat (sc_muladd toy_engine a b c) = (le_nat a * le_nat b + le_nat c) mod group_order"
  using group_order_pos by (simp add: toy_engine_def le_nat_to_le_32)

lemma toy_order: "smul group_order toy_base = 0"
proof -
  have "(1::nat) < group_order" by (simp add: group_order_def)
  then show ?thesis unfolding toy_base_def by (simp add: smul_zl zero_zl_def)
qed

lemma toy_scalarmult_base:
  "toy_pt3 (x25519_ge_scalarmult_base toy_engine a) = Some (smul (le_nat a) toy_base)"
proof -
  have "(1::nat) < group_order" by (simp add: group_order_def)
  then show ?thesis unfolding toy_base_def
    using group_order_pos by (simp add: smul_zl toy_engine_def toy_pt3_def)
qed

lemma toy_frombytes:
  assumes "toy_pt3 A = Some g"
  shows "\<exists>A'. x25519_ge_frombytes_vartime toy_engine (ge_p3_tobytes toy_engine A) = Some A'
           \<and> toy_pt3 A' = Some g"
proof -
  from assms have lt: "X A < group_order" and g: "g = Abs_zl (X A)"
    by (auto simp: toy_pt3_def split: if_splits)
  then show ?thesis
    by (simp add: toy_engine_def le_nat_to_le_32 toy_pt3_def)
qed

lemma toy_negate:
  assumes "toy_pt3 A = Some g"
  shows "toy_pt3 (negate_p3 toy_engine A) = Some (- g)"
proof -
  from assms have lt: "X A < group_order" and g: "g = Abs_zl (X A)"
    by (auto simp: toy_pt3_def split: if_splits)
  have "- Abs_zl (X A) = Abs_zl ((group_order - X A) mod group_order)"
    using lt by (simp add: uminus_zl_def Abs_zl_inverse)
  then show ?thesis
    using group_order_pos g by (simp add: negate_p3_def toy_engine_def toy_pt3_def Let_def)
qed

lemma toy_double_scalarmult:
  assumes "toy_pt3 A = Some g"
  shows "toy_pt2 (ge_double_scalarmult_vartime toy_engine a A b)
           = Some (smul (le_nat a) g + smul (le_nat b) toy_base)"
proof -
  from assms have lt: "X A < group_order" and g: "g = Abs_zl (X A)"
    by (auto simp: toy_pt3_def split: if_splits)
  have one: "(1::nat) < group_order" by (simp add: group_order_def)
  have "smul (le_nat a) g + smul (le_nat b) toy_base
      = Abs_zl ((le_nat a * X A) mod group_order) + Abs_zl ((le_nat b * 1) mod group_order)"
    unfolding g toy_base_def using lt one by (simp only: smul_zl)
  also have "\<dots> = Abs_zl ((le_nat a * X A + le_nat b) mod group_order)"
    using group_order_pos by (simp add: plus_zl_def Abs_zl_inverse mod_simps)
  finally show ?thesis
    using group_order_pos by (simp add: toy_engine_def toy_pt2_def)
qed

lemma toy_tobytes:
  assumes "toy_pt2 R = Some g" "toy_pt3 A = Some g"
  shows "x25519_ge_tobytes toy_engine R = ge_p3_tobytes toy_engine A"
proof -
  from assms have "R < group_order" "X A < group_order" "Abs_zl R = Abs_zl (X A)"
    by (auto simp: toy_pt3_def toy_pt2_def split: if_splits)
  then have "R = X A" by (simp add: Abs_zl_inject)
  then show ?thesis by (simp add: toy_engine_def)
qed

lemma toy_engine_ok: "engine_contract toy_engine toy_pt3 toy_pt2 toy_base"
  unfolding engine_contract_def
proof (intro conjI allI impI)
  show "length (SHA512 toy_engine m) = 64" for m by (rule toy_sha)
  show "length (x25519_sc_reduce toy_engine s) = 64" if "length s = 64" for s
    using toy_reduce[OF that] by simp
  show "le_nat (take 32 (x25519_sc_reduce toy_engine s)) = le_nat s mod group_order"
    if "length s = 64" for s
    using toy_reduce[OF that] by simp
  show "length (sc_muladd toy_engine a b c) = 32" for a b c
    using toy_muladd by simp
  show "le_nat (sc_muladd toy_engine a b c) = (le_nat a * le_nat b + le_nat c) mod group_order"
    for a b c
    using toy_muladd by simp
  show "smul group_order toy_base = 0" by (rule toy_order)
  show "toy_pt3 (x25519_ge_scalarmult_base toy_engine a) = Some (smul (le_nat a) toy_base)" for a
    by (rule toy_scalarmult_base)
  show "length (ge_p3_tobytes toy_engine A) = 32" for A
    by (simp add: toy_engine_def)
  show "\<exists>A'. x25519_ge_frombytes_vartime toy_engine (ge_p3_tobytes toy_engine A) = Some A'
           \<and> toy_pt3 A' = Some g" if "toy_pt3 A = Some g" for A g
    using that by (rule toy_frombytes)
  show "toy_pt3 (negate_p3 toy_engine A) = Some (- g)" if "toy_pt3 A = Some g" for A g
    using that by (rule toy_negate)
  show "toy_pt2 (ge_double_scalarmult_vartime toy_engine a A b)
           = Some (smul (le_nat a) g + smul (le_nat b) toy_base)"
    if "length a = 32 \<and> a ! 31 \<le> 127 \<and> length b = 32 \<and> b ! 31 \<le> 127 \<and> toy_pt3 A = Some g"
    for a A b g
    using that by (simp add: toy_double_scalarmult del: smul.simps)
  show "x25519_ge_tobytes toy_engine R = ge_p3_tobytes toy_engine A"
    if "toy_pt2 R = Some g \<and> toy_pt3 A = Some g" for R A g
    using that toy_tobytes by blast
qed

section \<open>Verification rejects a scalar that is not below the group order\<close>

lemma verify_S_ge_order:
  assumes "length signature = 64" "group_order \<le> le_nat (drop 32 signature)"
  shows "ED25519_verify E message signature public_key = 0"
proof -
  have "length (drop 32 signature) = 32" using assms(1) by simp
  then have "order_loop 3 (drop 32 signature) = Return 0"
    using assms(2) by (simp add: order_loop_3)
  moreover have "OPENSSL_memcpy (drop 32 signature) 32 = drop 32 signature"
    using assms(1) by (simp add: OPENSSL_memcpy_def)
  ultimately show ?thesis
    unfolding ED25519_verify_def by (simp add: Let_def split: option.split)
qed

text \<open>
  Claim C1. Whatever the message, the public key and the engine, a 64-byte signature
  whose second half S, read as a little-endian 256-bit number, is at least the group
  order (the order itself included) is rejected: \<^verbatim>\<open>ED25519_verify\<close> returns 0. The
  loop over the four limbs, most significant first, leaves by \<^verbatim>\<open>break\<close> exactly when S
  is below the order and by \<^verbatim>\<open>return 0\<close> otherwise. In particular a signature whose S
  half is replaced by S plus the group order, where that still fits in 256 bits, is
  rejected.
\<close>

theorem ED25519_verify_rejects_S_not_below_order:
  "(length signature = 64 \<and> group_order \<le> le_nat (drop 32 signature)
      \<longrightarrow> ED25519_verify E message signature public_key = 0)
   \<and> (length scopy = 32
      \<longrightarrow> order_loop 3 scopy = (if le_nat scopy < group_order then Break else Return 0))
   \<and> (length R = 32 \<and> length S = 32 \<and> le_nat S + group_order < 2 ^ 256
      \<longrightarrow> ED25519_verify E message (R @ nat_to_le 32 (le_nat S + group_order)) public_key = 0)"
proof (intro conjI impI)
  assume "length signature = 64 \<and> group_order \<le> le_nat (drop 32 signature)"
  then show "ED25519_verify E message signature public_key = 0"
    using verify_S_ge_order by blast
next
  assume "length scopy = 32"
  then show "order_loop 3 scopy = (if le_nat scopy < group_order then Break else Return 0)"
    by (rule order_loop_3)
next
  assume a: "length R = 32 \<and> length S = 32 \<and> le_nat S + group_order < 2 ^ 256"
  let ?sig = "R @ nat_to_le 32 (le_nat S + group_order)"
  have "le_nat (nat_to_le 32 (le_nat S + group_order)) = le_nat S + group_order"
    using a by (simp add: le_nat_nat_to_le)
  then have "group_order \<le> le_nat (drop 32 ?sig)" using a by simp
  moreover have "length ?sig = 64" using a by simp
  ultimately show "ED25519_verify E message ?sig public_key = 0"
    by (rule verify_S_ge_order[rotated])
qed

lemma le_nat_replicate_0: "le_nat (replicate n 0) = 0"
  by (induction n) simp_all

text \<open>
  At the small engine: S equal to the order, under a public key that decodes, is
  rejected; so is S = 5 with the order added.
\<close>

theorem ED25519_verify_rejects_S_not_below_order_witness:
  "length (replicate 32 0 @ nat_to_le 32 group_order) = 64
   \<and> group_order \<le> le_nat (drop 32 (replicate 32 0 @ nat_to_le 32 group_order))
   \<and> x25519_ge_frombytes_vartime toy_engine (take 32 (replicate 32 0)) \<noteq> None
   \<and> ED25519_verify toy_engine [] (replicate 32 0 @ nat_to_le 32 group_order) (replicate 32 0) = 0
   \<and> length (nat_to_le 32 group_order) = 32
   \<and> order_loop 3 (nat_to_le 32 group_order) = Return 0
   \<and> length (replicate 32 (0::u8)) = 32 \<and> length (nat_to_le 32 5) = 32
   \<and> le_nat (nat_to_le 32 5) + group_order < 2 ^ 256
   \<and> ED25519_verify toy_engine []
        (replicate 32 0 @ nat_to_le 32 (le_nat (nat_to_le 32 5) + group_order)) (replicate 32 0) = 0"
proof -
  have 1: "le_nat (nat_to_le 32 group_order) = group_order"
    by (simp add: le_nat_nat_to_le group_order_def)
  have 2: "le_nat (nat_to_le 32 5) = 5"
    by (simp add: le_nat_nat_to_le)
  have 4: "x25519_ge_frombytes_vartime toy_engine (take 32 (replicate 32 0)) \<noteq> None"
    by (simp add: toy_engine_def le_nat_replicate_0 group_order_def)
  show ?thesis
    using ED25519_verify_rejects_S_not_below_order
      [of "replicate 32 0 @ nat_to_le 32 group_order" toy_engine "[]" "replicate 32 0"
          "nat_to_le 32 group_order" "replicate 32 0" "nat_to_le 32 5"]
      1 2 4
    by (simp add: group_order_def)
qed

section \<open>Verification rejects a malformed signature or public key at once\<close>

text \<open>
  Claim C3. When any of the top three bits of the signature's last byte is set, or the
  32-byte public key does not decode to a point, \<^verbatim>\<open>ED25519_verify\<close> returns 0: it is a
  value of the function, which has no other way to end. The rejection comes before the
  challenge is computed: it is the same whatever the hash, the scalar reduction, the
  double-scalar multiplication and the point encoding are.
\<close>

theorem ED25519_verify_rejects_malformed:
  assumes "signature ! 63 AND 224 \<noteq> 0
           \<or> x25519_ge_frombytes_vartime E (take 32 public_key) = None"
  shows "ED25519_verify E message signature public_key = 0
         \<and> ED25519_verify
              (E\<lparr>SHA512 := hash, x25519_sc_reduce := reduce,
                 ge_double_scalarmult_vartime := mult, x25519_ge_tobytes := enc\<rparr>)
              message signature public_key = 0"
  using assms unfolding ED25519_verify_def by auto

text \<open>
  At the small engine: a signature of zeros but for a last byte of 224, and a public key
  of 32 bytes 255, which is not below the order and does not decode there.
\<close>

theorem ED25519_verify_rejects_malformed_witness:
  "(replicate 63 0 @ [224 :: u8]) ! 63 AND 224 \<noteq> 0
   \<and> ED25519_verify toy_engine [] (replicate 63 0 @ [224]) (replicate 32 0) = 0
   \<and> replicate 64 (0 :: u8) ! 63 AND 224 = 0
   \<and> x25519_ge_frombytes_vartime toy_engine (take 32 (replicate 32 255)) = None
   \<and> ED25519_verify toy_engine [] (replicate 64 0) (replicate 32 255) = 0"
proof -
  have 1: "(replicate 63 0 @ [224 :: u8]) ! 63 AND 224 \<noteq> 0"
    by (simp add: nth_append)
  have "Suc (le_nat (replicate n 255)) = 256 ^ n" for n
    by (induction n) simp_all
  from this [of 32] have 2: "x25519_ge_frombytes_vartime toy_engine (take 32 (replicate 32 255)) = None"
    by (simp add: toy_engine_def group_order_def)
  show ?thesis
    using ED25519_verify_rejects_malformed [of "replicate 63 0 @ [224]" toy_engine "replicate 32 0" "[]"]
      ED25519_verify_rejects_malformed [of "replicate 64 0" toy_engine "replicate 32 255" "[]"]
      1 2
    by simp
qed

section \<open>A signature made with a generated key verifies\<close>

lemma u8_clamp_63: "(x AND 63) OR 64 = (x AND 127) OR (64::u8)"
proof -
  have "(127::u8) = 63 OR 64" by simp
  then have "(x AND 127) OR 64 = (x AND 63) OR ((x AND 64) OR 64)"
    by (simp only: word_ao_dist2 word_bw_assocs)
  also have "(x AND 64) OR 64 = (64::u8)" by simp
  finally show ?thesis by simp
qed

lemma u8_clamp_le_127: "(x AND 127) OR 64 \<le> (127::u8)"
proof -
  have "(x AND 127) OR 64 = (x OR 64) AND (127::u8)"
    by (simp add: word_ao_dist)
  then show ?thesis by (simp add: word_and_le1)
qed

lemma u8_lt_32: 
  fixes x :: u8 assumes "unat x < 32" shows "x AND 224 = 0" and "x \<le> 127"
proof -
  have "x < 2 ^ 5" using assms by (simp add: word_less_nat_alt)
  then have "x AND mask 5 = x" by (rule less_mask_eq)
  then have "x AND 224 = (x AND mask 5) AND 224" by simp
  also have "\<dots> = x AND (mask 5 AND 224)" by (simp only: word_bw_assocs)
  also have "(mask 5 AND 224 :: u8) = 0" by (simp add: mask_eq_exp_minus_1)
  finally show "x AND 224 = 0" by simp
  show "x \<le> 127" using assms by (simp add: word_le_nat_alt)
qed

lemma le_nat_top_byte:
  assumes "length s = 32"
  shows "le_nat s = le_nat (take 31 s) + 256 ^ 31 * unat (s ! 31)"
proof -
  have "take (Suc 31) s = take 31 s @ [s ! 31]"
    using assms by (intro take_Suc_conv_app_nth) simp
  moreover have "take (Suc 31) s = s" using assms by simp
  ultimately have "s = take 31 s @ [s ! 31]" by simp
  then have "le_nat s = le_nat (take 31 s @ [s ! 31])" by simp
  also have "\<dots> = le_nat (take 31 s) + 256 ^ 31 * unat (s ! 31)"
    using assms by (simp add: le_nat_append)
  finally show ?thesis .
qed

lemma below_order_top_byte:
  assumes "length s = 32" "le_nat s < group_order"
  shows "unat (s ! 31) < 32"
proof (rule ccontr)
  assume "\<not> unat (s ! 31) < 32"
  then have "32 \<le> unat (s ! 31)" by simp
  then have "256 ^ 31 * 32 \<le> (256 ^ 31 :: nat) * unat (s ! 31)" by (rule mult_le_mono2)
  also have "\<dots> \<le> le_nat s" using le_nat_top_byte[OF assms(1)] by simp
  finally show False using assms(2) by (simp add: group_order_def)
qed


lemma smul_add: "smul (a + b) g = smul a g + smul b g"
  by (induction a) (simp_all add: ac_simps)

lemma smul_zero: "smul n (0::'g::ab_group_add) = 0"
  by (induction n) simp_all

lemma smul_mult: "smul (a * b) g = smul a (smul b g)"
  by (induction a) (simp_all add: smul_add)

lemma smul_uminus: "smul n (- g) = - smul n (g::'g::ab_group_add)"
  by (induction n) simp_all

lemma smul_mod:
  assumes "smul group_order g = 0"
  shows "smul (n mod group_order) g = smul n g"
proof -
  have "smul n g = smul (n div group_order * group_order + n mod group_order) g" by simp
  also have "\<dots> = smul (n div group_order) (smul group_order g) + smul (n mod group_order) g"
    by (simp only: smul_add smul_mult)
  finally show ?thesis using assms by (simp add: smul_zero)
qed

lemma verification_equation:
  fixes base :: "'g::ab_group_add"
  assumes "smul group_order base = 0"
  shows "smul h (- smul a base) + smul ((h * a + r) mod group_order) base = smul r base"
proof -
  have "smul ((h * a + r) mod group_order) base = smul (h * a + r) base"
    using assms by (rule smul_mod)
  also have "\<dots> = smul h (smul a base) + smul r base"
    by (simp only: smul_add smul_mult)
  finally show ?thesis by (simp add: smul_uminus)
qed

lemma sign_then_verify_from_seed:
  fixes base :: "'g::ab_group_add"
  assumes ok: "engine_contract E pt3 pt2 base" and seed: "length seed = 32"
  shows "sign_ret (ED25519_sign E message
             (kfs_out_private_key (ED25519_keypair_from_seed E seed))) = 1
       \<and> ED25519_verify E message
           (sign_out_sig (ED25519_sign E message
             (kfs_out_private_key (ED25519_keypair_from_seed E seed))))
           (kfs_out_public_key (ED25519_keypair_from_seed E seed)) = 1"
proof -
  from ok have sha: "\<And>m. length (SHA512 E m) = 64"
    and red: "\<And>s. length s = 64 \<Longrightarrow> length (x25519_sc_reduce E s) = 64"
    and redv: "\<And>s. length s = 64 \<Longrightarrow>
          le_nat (take 32 (x25519_sc_reduce E s)) = le_nat s mod group_order"
    and mal: "\<And>a b c. length a = 32 \<Longrightarrow> length b = 32 \<Longrightarrow> length c = 32 \<Longrightarrow>
          length (sc_muladd E a b c) = 32"
    and mav: "\<And>a b c. length a = 32 \<Longrightarrow> length b = 32 \<Longrightarrow> length c = 32 \<Longrightarrow>
          le_nat (sc_muladd E a b c) = (le_nat a * le_nat b + le_nat c) mod group_order"
    and ord: "smul group_order base = 0"
    and bm: "\<And>a. length a = 32 \<Longrightarrow> a ! 31 \<le> 127 \<Longrightarrow>
          pt3 (x25519_ge_scalarmult_base E a) = Some (smul (le_nat a) base)"
    and tbl: "\<And>A. length (ge_p3_tobytes E A) = 32"
    and fb: "\<And>A g. pt3 A = Some g \<Longrightarrow>
          \<exists>A'. x25519_ge_frombytes_vartime E (ge_p3_tobytes E A) = Some A' \<and> pt3 A' = Some g"
    and ng: "\<And>A g. pt3 A = Some g \<Longrightarrow> pt3 (negate_p3 E A) = Some (- g)"
    and dsm: "\<And>a A b g. length a = 32 \<Longrightarrow> a ! 31 \<le> 127 \<Longrightarrow> length b = 32 \<Longrightarrow> b ! 31 \<le> 127
          \<Longrightarrow> pt3 A = Some g \<Longrightarrow>
          pt2 (ge_double_scalarmult_vartime E a A b)
            = Some (smul (le_nat a) g + smul (le_nat b) base)"
    and tb: "\<And>R A g. pt2 R = Some g \<Longrightarrow> pt3 A = Some g \<Longrightarrow>
          x25519_ge_tobytes E R = ge_p3_tobytes E A"
    unfolding engine_contract_def by blast+
  define d where "d = SHA512 E seed"
  define az where "az = d[0 := d ! 0 AND 248, 31 := (d ! 31 AND 127) OR 64]"
  define a where "a = take 32 az"
  define A where "A = x25519_ge_scalarmult_base E a"
  define pk where "pk = ge_p3_tobytes E A"
  define nonce where "nonce = x25519_sc_reduce E (SHA512 E (take 32 (drop 32 az) @ message))"
  define r where "r = take 32 nonce"
  define R where "R = x25519_ge_scalarmult_base E r"
  define Rb where "Rb = ge_p3_tobytes E R"
  define hram where "hram = x25519_sc_reduce E (SHA512 E (Rb @ pk @ message))"
  define h where "h = take 32 hram"
  define S where "S = sc_muladd E h a r"
  have ld: "length d = 64" by (simp add: d_def sha)
  have laz: "length az = 64" by (simp add: az_def ld)
  have la: "length a = 32" by (simp add: a_def laz)
  have a31: "a ! 31 \<le> 127" using ld by (simp add: a_def az_def u8_clamp_le_127)
  have ptA: "pt3 A = Some (smul (le_nat a) base)" unfolding A_def using la a31 by (rule bm)
  have lpk: "length pk = 32" by (simp add: pk_def tbl)
  have lnonce: "length nonce = 64" by (simp add: nonce_def red sha)
  have lr: "length r = 32" by (simp add: r_def lnonce)
  have "le_nat r = le_nat (SHA512 E (take 32 (drop 32 az) @ message)) mod group_order"
    by (simp add: r_def nonce_def redv sha)
  then have rlt: "le_nat r < group_order" using group_order_pos by simp
  have r31: "r ! 31 \<le> 127" using below_order_top_byte[OF lr rlt] by (rule u8_lt_32)
  have ptR: "pt3 R = Some (smul (le_nat r) base)" unfolding R_def using lr r31 by (rule bm)
  have lRb: "length Rb = 32" by (simp add: Rb_def tbl)
  have lhram: "length hram = 64" by (simp add: hram_def red sha)
  have lh: "length h = 32" by (simp add: h_def lhram)
  have "le_nat h = le_nat (SHA512 E (Rb @ pk @ message)) mod group_order"
    by (simp add: h_def hram_def redv sha)
  then have hlt: "le_nat h < group_order" using group_order_pos by simp
  have h31: "h ! 31 \<le> 127" using below_order_top_byte[OF lh hlt] by (rule u8_lt_32)
  have lS: "length S = 32" unfolding S_def using lh la lr by (rule mal)
  have Sv: "le_nat S = (le_nat h * le_nat a + le_nat r) mod group_order"
    unfolding S_def using lh la lr by (rule mav)
  then have Slt: "le_nat S < group_order" using group_order_pos by simp
  have S31: "unat (S ! 31) < 32" using lS Slt by (rule below_order_top_byte)
  have kfs: "ED25519_keypair_from_seed E seed
      = \<lparr>kfs_out_public_key = pk, kfs_out_private_key = seed @ pk, kfs_az = az\<rparr>"
    using seed
    by (simp add: ED25519_keypair_from_seed_def ED25519_SEED_LEN_def OPENSSL_memcpy_def Let_def
        tbl sha pk_def A_def a_def az_def d_def)
  have azs: "d[0 := d ! 0 AND 248, 31 := (d ! 31 AND 63) OR 64] = az"
    by (simp add: az_def u8_clamp_63)
  have sg: "ED25519_sign E message (seed @ pk)
      = \<lparr>sign_ret = 1, sign_out_sig = Rb @ S, sign_az = az, sign_nonce = nonce, sign_hram = hram\<rparr>"
    using seed
    by (simp add: ED25519_sign_def SHA512_Init_def SHA512_Update_def SHA512_Final_def Let_def
        tbl sha u8_clamp_63 S_def h_def hram_def Rb_def R_def r_def nonce_def pk_def A_def
        a_def az_def d_def)
  from fb[OF ptA] obtain A' where
    A': "x25519_ge_frombytes_vartime E pk = Some A'" "pt3 A' = Some (smul (le_nat a) base)"
    unfolding pk_def by blast
  have negA: "pt3 (negate_p3 E A') = Some (- smul (le_nat a) base)" using A'(2) by (rule ng)
  have "pt2 (ge_double_scalarmult_vartime E h (negate_p3 E A') S)
      = Some (smul (le_nat h) (- smul (le_nat a) base) + smul (le_nat S) base)"
    using lh h31 lS u8_lt_32(2)[OF S31] negA by (rule dsm)
  also have "\<dots> = Some (smul (le_nat r) base)"
    unfolding Sv using ord by (simp only: verification_equation)
  finally have "x25519_ge_tobytes E (ge_double_scalarmult_vartime E h (negate_p3 E A') S) = Rb"
    unfolding Rb_def using ptR by (rule tb)
  moreover have "order_loop 3 S = Break" using lS Slt by (simp add: order_loop_3)
  moreover have "(Rb @ S) ! 63 AND 224 = 0" using lRb lS u8_lt_32(1)[OF S31] by (simp add: nth_append)
  ultimately have vf: "ED25519_verify E message (Rb @ S) pk = 1"
    using lRb lS lpk A'(1) lhram
    by (simp add: ED25519_verify_def OPENSSL_memcpy_def SHA512_Init_def SHA512_Update_def
        SHA512_Final_def CRYPTO_memcmp_def Let_def negate_p3_def h_def hram_def)
  show ?thesis by (simp add: kfs sg vf)
qed

text \<open>
  Claim C2. For an engine that keeps the contract, every 32-byte seed and every message
  (the empty one included): the signature \<^verbatim>\<open>ED25519_sign\<close> produces with the private key
  of \<^verbatim>\<open>ED25519_keypair_from_seed\<close> is accepted by \<^verbatim>\<open>ED25519_verify\<close> under the public key
  of the same call, and signing returns 1. The same holds for the key pair of
  \<^verbatim>\<open>ED25519_keypair\<close>, whatever 32 bytes the random source delivers.
\<close>

theorem ED25519_sign_then_verify:
  fixes base :: "'g::ab_group_add"
  assumes ok: "engine_contract E pt3 pt2 base"
    and seed: "length seed = 32" and entropy: "length entropy = 32"
  shows "sign_ret (ED25519_sign E message
             (kfs_out_private_key (ED25519_keypair_from_seed E seed))) = 1
       \<and> ED25519_verify E message
           (sign_out_sig (ED25519_sign E message
             (kfs_out_private_key (ED25519_keypair_from_seed E seed))))
           (kfs_out_public_key (ED25519_keypair_from_seed E seed)) = 1
       \<and> sign_ret (ED25519_sign E message
             (kp_out_private_key (ED25519_keypair E entropy))) = 1
       \<and> ED25519_verify E message
           (sign_out_sig (ED25519_sign E message
             (kp_out_private_key (ED25519_keypair E entropy))))
           (kp_out_public_key (ED25519_keypair E entropy)) = 1"
proof -
  have kp: "kp_out_private_key (ED25519_keypair E entropy)
              = kfs_out_private_key (ED25519_keypair_from_seed E entropy)"
    "kp_out_public_key (ED25519_keypair E entropy)
              = kfs_out_public_key (ED25519_keypair_from_seed E entropy)"
    using entropy
    by (simp_all add: ED25519_keypair_def RAND_bytes_def ED25519_SEED_LEN_def Let_def)
  from sign_then_verify_from_seed [OF ok seed, of message]
    sign_then_verify_from_seed [OF ok entropy, of message]
  show ?thesis unfolding kp by (iprover intro: conjI elim: conjE)
qed

text \<open>
  At the small engine, for the seed of 32 bytes 7 and the empty message. The engine
  keeps the contract (\<open>toy_engine_ok\<close>).
\<close>

theorem ED25519_sign_then_verify_witness:
  "engine_contract toy_engine toy_pt3 toy_pt2 toy_base
   \<and> length (replicate 32 (7::u8)) = 32
   \<and> sign_ret (ED25519_sign toy_engine []
         (kfs_out_private_key (ED25519_keypair_from_seed toy_engine (replicate 32 7)))) = 1
   \<and> ED25519_verify toy_engine []
         (sign_out_sig (ED25519_sign toy_engine []
           (kfs_out_private_key (ED25519_keypair_from_seed toy_engine (replicate 32 7)))))
         (kfs_out_public_key (ED25519_keypair_from_seed toy_engine (replicate 32 7))) = 1
   \<and> ED25519_verify toy_engine []
         (sign_out_sig (ED25519_sign toy_engine []
           (kp_out_private_key (ED25519_keypair toy_engine (replicate 32 7)))))
         (kp_out_public_key (ED25519_keypair toy_engine (replicate 32 7))) = 1"
proof -
  have l: "length (replicate 32 (7::u8)) = 32" by simp
  from ED25519_sign_then_verify [OF toy_engine_ok l l, of "[]"] toy_engine_ok l
  show ?thesis by (iprover intro: conjI elim: conjE)
qed

section \<open>What X25519 and X25519_public_from_private write\<close>

lemma s2n_cases:
  "CURVE25519_S2N_BIGNUM_CAPABLE cfg \<Longrightarrow>
     target_arch cfg = OPENSSL_X86_64 \<and> x25519_s2n_bignum_alt_capable cfg = 1
   \<or> target_arch cfg = OPENSSL_AARCH64 \<and> x25519_s2n_bignum_no_alt_capable cfg = 1"
  by (auto simp: CURVE25519_S2N_BIGNUM_CAPABLE_def x25519_s2n_bignum_alt_capable_def
      x25519_s2n_bignum_no_alt_capable_def)

lemma clamp_let:
  "(let d = OPENSSL_memcpy k 32; d = d[0 := d ! 0 AND 248]; d = d[31 := d ! 31 AND 127];
        d = d[31 := d ! 31 OR 64] in f d) = f (clamp (take 32 k))"
  by (simp add: clamp_def OPENSSL_memcpy_def Let_def)

lemma take_clamp: "take 32 (clamp (take 32 k)) = clamp (take 32 k)"
  by (simp add: clamp_def Let_def)


lemma X25519_eq:
  "X25519 cfg B out_shared_key private_key peer_public_value m
     = Inr (m(out_shared_key := selected_shared_key cfg B (m private_key) (m peer_public_value)),
            if take 32 (selected_shared_key cfg B (m private_key) (m peer_public_value)) = kZeros
            then 0 else 1)"
proof (cases "CURVE25519_S2N_BIGNUM_CAPABLE cfg")
  case False
  then show ?thesis
    by (simp add: X25519_def x25519_s2n_bignum_capable_def CRYPTO_memcmp_def kZeros_def
        selected_shared_key_def)
next
  case True
  from s2n_cases[OF True] True show ?thesis
    unfolding X25519_def x25519_s2n_bignum_def clamp_let
    by (auto simp: x25519_s2n_bignum_capable_def CRYPTO_memcmp_def kZeros_def s2n_return_def
        curve25519_x25519_byte_def curve25519_x25519_byte_alt_def selected_shared_key_def
        take_clamp x25519_s2n_bignum_no_alt_capable_def x25519_s2n_bignum_alt_capable_def
        split: if_splits)
qed

lemma X25519_public_from_private_eq:
  "X25519_public_from_private cfg B out_public_value private_key m
     = Inr (m(out_public_value := selected_public_value cfg B (m private_key)))"
proof (cases "CURVE25519_S2N_BIGNUM_CAPABLE cfg")
  case False
  then show ?thesis
    by (simp add: X25519_public_from_private_def x25519_s2n_bignum_capable_def
        selected_public_value_def)
next
  case True
  from s2n_cases[OF True] True show ?thesis
    unfolding X25519_public_from_private_def x25519_s2n_bignum_public_from_private_def clamp_let
    by (auto simp: x25519_s2n_bignum_capable_def s2n_return_def
        curve25519_x25519base_byte_def curve25519_x25519base_byte_alt_def
        selected_public_value_def take_clamp
        x25519_s2n_bignum_no_alt_capable_def x25519_s2n_bignum_alt_capable_def
        split: if_splits)
qed


lemma length_clamp [simp]: "length (clamp k) = length k"
  by (simp add: clamp_def Let_def)

lemma nat_to_le_0: "nat_to_le n 0 = replicate n 0"
  by (induction n) simp_all

lemma toy_mult_zero: "toy_mult k (replicate 32 0) = replicate 32 0"
  by (simp add: toy_mult_def le_nat_replicate_0 nat_to_le_0)

lemma toy_zero_point: "zero_point_gives_zero toy_backends"
  by (simp add: zero_point_gives_zero_def toy_backends_def toy_mult_zero)

lemma toy_s2n_run:
  "x25519_s2n_bignum (x86_64_linux 1 1) toy_backends 0 1 2
         (store (replicate 32 255) (replicate 32 9))
       = Inr \<lparr>s2n_mem = (store (replicate 32 255) (replicate 32 9))
                          (0 := toy_mult (clamp (replicate 32 255)) (replicate 32 9)),
              s2n_private_key_internal_demask = clamp (replicate 32 255)\<rparr>"
  unfolding x25519_s2n_bignum_def clamp_let
  by (simp add: s2n_return_def curve25519_x25519_byte_def x86_64_linux_def
        x25519_s2n_bignum_no_alt_capable_def CURVE25519_S2N_BIGNUM_CAPABLE_def
        toy_backends_def store_def take_clamp)

section \<open>X25519 reports an all-zero shared secret\<close>

lemma clamp_zeros: "clamp (replicate 32 0) = replicate 31 0 @ [64]"
proof (rule nth_equalityI)
  show "length (clamp (replicate 32 0)) = length (replicate 31 (0::u8) @ [64])" by simp
next
  fix i assume "i < length (clamp (replicate 32 0))"
  then have "i < 32" by simp
  then show "clamp (replicate 32 0) ! i = (replicate 31 0 @ [64]) ! i"
    by (auto simp: clamp_def Let_def nth_list_update nth_append)
qed

lemma le_nat_clamp_zeros: "le_nat (clamp (replicate 32 0)) = 2 ^ 254"
  by (simp add: clamp_zeros le_nat_append le_nat_replicate_0)

lemma le_nat_one: "le_nat (1 # replicate 31 0) = 1"
  by (simp add: le_nat_replicate_0)

lemma toy_mult_run: "toy_mult (clamp (replicate 32 0)) (1 # replicate 31 0) = nat_to_le 32 (2 ^ 254)"
  by (simp add: toy_mult_def le_nat_clamp_zeros le_nat_replicate_0)

lemma toy_mult_run_nonzero: "nat_to_le 32 (2 ^ 254) \<noteq> replicate 32 0"
proof
  assume "nat_to_le 32 (2 ^ 254) = replicate 32 0"
  then have "le_nat (nat_to_le 32 (2 ^ 254)) = le_nat (replicate 32 0)" by simp
  then show False by (simp add: le_nat_nat_to_le le_nat_replicate_0)
qed

lemma toy_selected_run:
  "selected_shared_key (x86_64_linux 1 1) toy_backends
       (store (replicate 32 0) (1 # replicate 31 0) 1)
       (store (replicate 32 0) (1 # replicate 31 0) 2)
     = nat_to_le 32 (2 ^ 254)"
proof -
  have "CURVE25519_S2N_BIGNUM_CAPABLE (x86_64_linux 1 1)"
    by (simp add: CURVE25519_S2N_BIGNUM_CAPABLE_def x86_64_linux_def)
  moreover have "target_arch (x86_64_linux 1 1) = OPENSSL_X86_64"
    and "x25519_s2n_bignum_no_alt_capable (x86_64_linux 1 1) = 1"
    by (simp_all add: x86_64_linux_def x25519_s2n_bignum_no_alt_capable_def)
  moreover have "s2n_curve25519_x25519_byte toy_backends = toy_mult"
    by (simp add: toy_backends_def)
  ultimately show ?thesis
    by (simp add: selected_shared_key_def store_def toy_mult_run)
qed

text \<open>
  Claim C4. \<^verbatim>\<open>X25519\<close> never aborts: on every platform it writes into the caller's
  buffer the bytes the routine it selects computes from the key and the peer value
  (\<open>selected_shared_key\<close>: the portable routine on the stored key when the s2n-bignum
  path is not compiled in, else \<^verbatim>\<open>curve25519_x25519_byte\<close> or its \<^verbatim>\<open>_alt\<close> twin on the
  clamped copy), and it returns 0 when the first 32 of these bytes are all zero and 1
  otherwise, so the zero output is written in the failure case too. When the backends
  map the all-zero point to the all-zero output, a peer public value of 32 zero bytes
  gives the return value 0 and a shared secret of 32 zero bytes.
\<close>

theorem X25519_flags_zero_shared_secret:
  "X25519 cfg B out_shared_key private_key peer_public_value m
     = Inr (m(out_shared_key := selected_shared_key cfg B (m private_key) (m peer_public_value)),
            if take 32 (selected_shared_key cfg B (m private_key) (m peer_public_value))
                 = replicate 32 0
            then 0 else 1)
   \<and> (zero_point_gives_zero B \<and> length (m private_key) = 32
        \<and> take 32 (m peer_public_value) = replicate 32 0
      \<longrightarrow> X25519 cfg B out_shared_key private_key peer_public_value m
            = Inr (m(out_shared_key := replicate 32 0), 0))"
proof (intro conjI impI)
  show "X25519 cfg B out_shared_key private_key peer_public_value m
     = Inr (m(out_shared_key := selected_shared_key cfg B (m private_key) (m peer_public_value)),
            if take 32 (selected_shared_key cfg B (m private_key) (m peer_public_value))
                 = replicate 32 0
            then 0 else 1)"
    using X25519_eq [of cfg B out_shared_key private_key peer_public_value m]
    by (simp only: kZeros_def)
next
  assume a: "zero_point_gives_zero B \<and> length (m private_key) = 32
        \<and> take 32 (m peer_public_value) = replicate 32 0"
  then have "selected_shared_key cfg B (m private_key) (m peer_public_value) = replicate 32 0"
    unfolding selected_shared_key_def zero_point_gives_zero_def by simp
  then show "X25519 cfg B out_shared_key private_key peer_public_value m
            = Inr (m(out_shared_key := replicate 32 0), 0)"
    unfolding X25519_eq by (simp add: kZeros_def)
qed

text \<open>
  At the backends that multiply modulo \<open>2^255 - 19\<close>, on x86_64 with BMI2 and ADX: the
  key of 32 bytes 1 with the all-zero peer value gives 32 zero bytes and the return
  value 0; the key of 32 zero bytes (clamped: \<open>2^254\<close>) with the peer value 1 gives
  the bytes of \<open>2^254\<close> and the return value 1.
\<close>

theorem X25519_flags_zero_shared_secret_witness:
  "zero_point_gives_zero toy_backends
   \<and> length (store (replicate 32 1) (replicate 32 0) 1) = 32
   \<and> take 32 (store (replicate 32 1) (replicate 32 0) 2) = replicate 32 0
   \<and> X25519 (x86_64_linux 1 1) toy_backends 0 1 2 (store (replicate 32 1) (replicate 32 0))
       = Inr ((store (replicate 32 1) (replicate 32 0))(0 := replicate 32 0), 0)
   \<and> nat_to_le 32 (2 ^ 254) \<noteq> replicate 32 0
   \<and> X25519 (x86_64_linux 1 1) toy_backends 0 1 2 (store (replicate 32 0) (1 # replicate 31 0))
       = Inr ((store (replicate 32 0) (1 # replicate 31 0))(0 := nat_to_le 32 (2 ^ 254)), 1)"
proof -
  let ?m = "store (replicate 32 1) (replicate 32 0)"
  let ?n = "store (replicate 32 0) (1 # replicate 31 0)"
  note t = X25519_flags_zero_shared_secret [of "x86_64_linux 1 1" toy_backends 0 1 2 ?m]
  note u = X25519_flags_zero_shared_secret [of "x86_64_linux 1 1" toy_backends 0 1 2 ?n]
  have l: "length (?m 1) = 32" and p: "take 32 (?m 2) = replicate 32 0"
    by (simp_all add: store_def)
  from t toy_zero_point l p
  have 1: "X25519 (x86_64_linux 1 1) toy_backends 0 1 2 ?m = Inr (?m(0 := replicate 32 0), 0)"
    by (iprover elim: conjE impE intro: conjI)
  from u have "X25519 (x86_64_linux 1 1) toy_backends 0 1 2 ?n
       = Inr (?n(0 := selected_shared_key (x86_64_linux 1 1) toy_backends (?n 1) (?n 2)),
            if take 32 (selected_shared_key (x86_64_linux 1 1) toy_backends (?n 1) (?n 2))
                 = replicate 32 0
            then 0 else 1)"
    by (rule conjunct1)
  then have 2: "X25519 (x86_64_linux 1 1) toy_backends 0 1 2 ?n
       = Inr (?n(0 := nat_to_le 32 (2 ^ 254)), 1)"
    unfolding toy_selected_run using toy_mult_run_nonzero by simp
  from toy_zero_point l p 1 toy_mult_run_nonzero 2 show ?thesis
    by (iprover intro: conjI)
qed

section \<open>The priority of the backends\<close>

text \<open>
  Claim C5. With the s2n-bignum path compiled in, \<^verbatim>\<open>x25519_s2n_bignum\<close> and
  \<^verbatim>\<open>x25519_s2n_bignum_public_from_private\<close> choose the routine by architecture: on
  x86_64 the routine \<^verbatim>\<open>curve25519_x25519_byte\<close> (\<^verbatim>\<open>curve25519_x25519base_byte\<close>) when
  \<^verbatim>\<open>x25519_s2n_bignum_no_alt_capable\<close> holds, else the \<^verbatim>\<open>_alt\<close> routine when
  \<^verbatim>\<open>x25519_s2n_bignum_alt_capable\<close> holds; on aarch64 the \<^verbatim>\<open>_alt\<close> routine when
  \<^verbatim>\<open>x25519_s2n_bignum_alt_capable\<close> holds, else the other one when
  \<^verbatim>\<open>x25519_s2n_bignum_no_alt_capable\<close> holds. The chosen routine gets the clamped copy
  of the key and writes the output. On any platform, when neither predicate holds the
  call ends in \<^verbatim>\<open>abort()\<close> and returns nothing.
\<close>

theorem x25519_s2n_bignum_backend_priority:
  "(CURVE25519_S2N_BIGNUM_CAPABLE cfg \<and> target_arch cfg = OPENSSL_X86_64
      \<and> x25519_s2n_bignum_no_alt_capable cfg = 1
    \<longrightarrow> x25519_s2n_bignum cfg B out private_key peer m
          = Inr \<lparr>s2n_mem = m(out := s2n_curve25519_x25519_byte B
                                        (clamp (take 32 (m private_key))) (take 32 (m peer))),
                 s2n_private_key_internal_demask = clamp (take 32 (m private_key))\<rparr>
      \<and> x25519_s2n_bignum_public_from_private cfg B out private_key m
          = Inr \<lparr>s2n_mem = m(out := s2n_curve25519_x25519base_byte B
                                        (clamp (take 32 (m private_key)))),
                 s2n_private_key_internal_demask = clamp (take 32 (m private_key))\<rparr>)
   \<and> (CURVE25519_S2N_BIGNUM_CAPABLE cfg \<and> target_arch cfg = OPENSSL_X86_64
      \<and> x25519_s2n_bignum_no_alt_capable cfg \<noteq> 1 \<and> x25519_s2n_bignum_alt_capable cfg = 1
    \<longrightarrow> x25519_s2n_bignum cfg B out private_key peer m
          = Inr \<lparr>s2n_mem = m(out := s2n_curve25519_x25519_byte_alt B
                                        (clamp (take 32 (m private_key))) (take 32 (m peer))),
                 s2n_private_key_internal_demask = clamp (take 32 (m private_key))\<rparr>
      \<and> x25519_s2n_bignum_public_from_private cfg B out private_key m
          = Inr \<lparr>s2n_mem = m(out := s2n_curve25519_x25519base_byte_alt B
                                        (clamp (take 32 (m private_key)))),
                 s2n_private_key_internal_demask = clamp (take 32 (m private_key))\<rparr>)
   \<and> (CURVE25519_S2N_BIGNUM_CAPABLE cfg \<and> target_arch cfg = OPENSSL_AARCH64
      \<and> x25519_s2n_bignum_alt_capable cfg = 1
    \<longrightarrow> x25519_s2n_bignum cfg B out private_key peer m
          = Inr \<lparr>s2n_mem = m(out := s2n_curve25519_x25519_byte_alt B
                                        (clamp (take 32 (m private_key))) (take 32 (m peer))),
                 s2n_private_key_internal_demask = clamp (take 32 (m private_key))\<rparr>
      \<and> x25519_s2n_bignum_public_from_private cfg B out private_key m
          = Inr \<lparr>s2n_mem = m(out := s2n_curve25519_x25519base_byte_alt B
                                        (clamp (take 32 (m private_key)))),
                 s2n_private_key_internal_demask = clamp (take 32 (m private_key))\<rparr>)
   \<and> (CURVE25519_S2N_BIGNUM_CAPABLE cfg \<and> target_arch cfg = OPENSSL_AARCH64
      \<and> x25519_s2n_bignum_alt_capable cfg \<noteq> 1 \<and> x25519_s2n_bignum_no_alt_capable cfg = 1
    \<longrightarrow> x25519_s2n_bignum cfg B out private_key peer m
          = Inr \<lparr>s2n_mem = m(out := s2n_curve25519_x25519_byte B
                                        (clamp (take 32 (m private_key))) (take 32 (m peer))),
                 s2n_private_key_internal_demask = clamp (take 32 (m private_key))\<rparr>
      \<and> x25519_s2n_bignum_public_from_private cfg B out private_key m
          = Inr \<lparr>s2n_mem = m(out := s2n_curve25519_x25519base_byte B
                                        (clamp (take 32 (m private_key)))),
                 s2n_private_key_internal_demask = clamp (take 32 (m private_key))\<rparr>)
   \<and> (x25519_s2n_bignum_no_alt_capable cfg \<noteq> 1 \<and> x25519_s2n_bignum_alt_capable cfg \<noteq> 1
    \<longrightarrow> x25519_s2n_bignum cfg B out private_key peer m = Inl Abort
      \<and> x25519_s2n_bignum_public_from_private cfg B out private_key m = Inl Abort)"
proof -
  have ab: "target_arch cfg = OTHER_ARCH"
    if "x25519_s2n_bignum_no_alt_capable cfg \<noteq> 1 \<and> x25519_s2n_bignum_alt_capable cfg \<noteq> 1"
    using that
    by (cases "target_arch cfg")
      (simp_all add: x25519_s2n_bignum_no_alt_capable_def x25519_s2n_bignum_alt_capable_def)
  show ?thesis
    unfolding x25519_s2n_bignum_def x25519_s2n_bignum_public_from_private_def clamp_let
    by (intro conjI impI)
      (simp_all add: ab s2n_return_def take_clamp
        curve25519_x25519_byte_def curve25519_x25519_byte_alt_def
        curve25519_x25519base_byte_def curve25519_x25519base_byte_alt_def)
qed

lemma cap_x86 [simp]: "CURVE25519_S2N_BIGNUM_CAPABLE (x86_64_linux b a)"
  by (simp add: CURVE25519_S2N_BIGNUM_CAPABLE_def x86_64_linux_def)

lemma cap_a64 [simp]: "CURVE25519_S2N_BIGNUM_CAPABLE (aarch64_linux w)"
  by (simp add: CURVE25519_S2N_BIGNUM_CAPABLE_def aarch64_linux_def)

lemma cap_other [simp]: "\<not> CURVE25519_S2N_BIGNUM_CAPABLE other_linux"
  by (simp add: CURVE25519_S2N_BIGNUM_CAPABLE_def other_linux_def)

text \<open>
  At the backends that write bytes of their own (1 for \<^verbatim>\<open>curve25519_x25519_byte\<close>, 2 for
  \<^verbatim>\<open>curve25519_x25519_byte_alt\<close>): x86_64 with and without BMI2, aarch64 with and
  without the wide multiplier, and an architecture that is neither, on which neither
  predicate holds.
\<close>

theorem x25519_s2n_bignum_backend_priority_witness:
  "CURVE25519_S2N_BIGNUM_CAPABLE (x86_64_linux 1 1)
   \<and> target_arch (x86_64_linux 1 1) = OPENSSL_X86_64
   \<and> x25519_s2n_bignum_no_alt_capable (x86_64_linux 1 1) = 1
   \<and> x25519_s2n_bignum (x86_64_linux 1 1) probe_backends 0 1 2
         (store (replicate 32 255) (replicate 32 9))
       = Inr \<lparr>s2n_mem = (store (replicate 32 255) (replicate 32 9))(0 := replicate 32 1),
              s2n_private_key_internal_demask = clamp (replicate 32 255)\<rparr>
   \<and> CURVE25519_S2N_BIGNUM_CAPABLE (x86_64_linux 0 1)
   \<and> target_arch (x86_64_linux 0 1) = OPENSSL_X86_64
   \<and> x25519_s2n_bignum_no_alt_capable (x86_64_linux 0 1) \<noteq> 1
   \<and> x25519_s2n_bignum_alt_capable (x86_64_linux 0 1) = 1
   \<and> x25519_s2n_bignum (x86_64_linux 0 1) probe_backends 0 1 2
         (store (replicate 32 255) (replicate 32 9))
       = Inr \<lparr>s2n_mem = (store (replicate 32 255) (replicate 32 9))(0 := replicate 32 2),
              s2n_private_key_internal_demask = clamp (replicate 32 255)\<rparr>
   \<and> CURVE25519_S2N_BIGNUM_CAPABLE (aarch64_linux 1)
   \<and> target_arch (aarch64_linux 1) = OPENSSL_AARCH64
   \<and> x25519_s2n_bignum_alt_capable (aarch64_linux 1) = 1
   \<and> x25519_s2n_bignum (aarch64_linux 1) probe_backends 0 1 2
         (store (replicate 32 255) (replicate 32 9))
       = Inr \<lparr>s2n_mem = (store (replicate 32 255) (replicate 32 9))(0 := replicate 32 2),
              s2n_private_key_internal_demask = clamp (replicate 32 255)\<rparr>
   \<and> CURVE25519_S2N_BIGNUM_CAPABLE (aarch64_linux 0)
   \<and> target_arch (aarch64_linux 0) = OPENSSL_AARCH64
   \<and> x25519_s2n_bignum_alt_capable (aarch64_linux 0) \<noteq> 1
   \<and> x25519_s2n_bignum_no_alt_capable (aarch64_linux 0) = 1
   \<and> x25519_s2n_bignum (aarch64_linux 0) probe_backends 0 1 2
         (store (replicate 32 255) (replicate 32 9))
       = Inr \<lparr>s2n_mem = (store (replicate 32 255) (replicate 32 9))(0 := replicate 32 1),
              s2n_private_key_internal_demask = clamp (replicate 32 255)\<rparr>
   \<and> x25519_s2n_bignum_no_alt_capable other_linux \<noteq> 1
   \<and> x25519_s2n_bignum_alt_capable other_linux \<noteq> 1
   \<and> x25519_s2n_bignum other_linux probe_backends 0 1 2
         (store (replicate 32 255) (replicate 32 9)) = Inl Abort
   \<and> x25519_s2n_bignum_public_from_private other_linux probe_backends 0 1
         (store (replicate 32 255) (replicate 32 9)) = Inl Abort"
proof -
  let ?m = "store (replicate 32 255) (replicate 32 9)"
  have k: "take 32 (?m (Suc 0)) = replicate 32 255" by (simp add: store_def)
  have p: "s2n_curve25519_x25519_byte probe_backends = (\<lambda>k p. replicate 32 1)"
    "s2n_curve25519_x25519_byte_alt probe_backends = (\<lambda>k p. replicate 32 2)"
    by (simp_all add: probe_backends_def)
  have c1: "x25519_s2n_bignum_no_alt_capable (x86_64_linux 1 1) = 1"
    and c2: "x25519_s2n_bignum_no_alt_capable (x86_64_linux 0 1) \<noteq> 1"
    and c3: "x25519_s2n_bignum_alt_capable (x86_64_linux 0 1) = 1"
    and c4: "x25519_s2n_bignum_alt_capable (aarch64_linux 1) = 1"
    and c5: "x25519_s2n_bignum_alt_capable (aarch64_linux 0) \<noteq> 1"
    and c6: "x25519_s2n_bignum_no_alt_capable (aarch64_linux 0) = 1"
    and c7: "x25519_s2n_bignum_no_alt_capable other_linux \<noteq> 1"
    and c8: "x25519_s2n_bignum_alt_capable other_linux \<noteq> 1"
    and a1: "target_arch (x86_64_linux b a) = OPENSSL_X86_64"
    and a2: "target_arch (aarch64_linux w) = OPENSSL_AARCH64"
    for b a w
    by (simp_all add: x25519_s2n_bignum_no_alt_capable_def x25519_s2n_bignum_alt_capable_def
        x86_64_linux_def aarch64_linux_def other_linux_def)
  show ?thesis
    using x25519_s2n_bignum_backend_priority [of "x86_64_linux 1 1" probe_backends 0 1 2 ?m]
      x25519_s2n_bignum_backend_priority [of "x86_64_linux 0 1" probe_backends 0 1 2 ?m]
      x25519_s2n_bignum_backend_priority [of "aarch64_linux 1" probe_backends 0 1 2 ?m]
      x25519_s2n_bignum_backend_priority [of "aarch64_linux 0" probe_backends 0 1 2 ?m]
      x25519_s2n_bignum_backend_priority [of other_linux probe_backends 0 1 2 ?m]
    by (simp add: k p c1 c2 c3 c4 c5 c6 c7 c8 a1 a2)
qed

section \<open>The choice of backend does not show\<close>

lemma neither_capable_other:
  assumes "x25519_s2n_bignum_no_alt_capable cfg \<noteq> 1 \<and> x25519_s2n_bignum_alt_capable cfg \<noteq> 1"
  shows "\<not> CURVE25519_S2N_BIGNUM_CAPABLE cfg"
  using assms
  by (cases "target_arch cfg")
    (simp_all add: x25519_s2n_bignum_no_alt_capable_def x25519_s2n_bignum_alt_capable_def
      CURVE25519_S2N_BIGNUM_CAPABLE_def)

lemma not_capable_fallback:
  assumes that: "x25519_s2n_bignum_capable cfg \<noteq> 1
            \<or> x25519_s2n_bignum_no_alt_capable cfg \<noteq> 1 \<and> x25519_s2n_bignum_alt_capable cfg \<noteq> 1"
  shows "\<not> CURVE25519_S2N_BIGNUM_CAPABLE cfg"
proof -
  from that show ?thesis
  proof
    assume "x25519_s2n_bignum_capable cfg \<noteq> 1"
    then show ?thesis by (simp add: x25519_s2n_bignum_capable_def split: if_splits)
  next
    assume "x25519_s2n_bignum_no_alt_capable cfg \<noteq> 1 \<and> x25519_s2n_bignum_alt_capable cfg \<noteq> 1"
    then show ?thesis by (rule neither_capable_other)
  qed
qed

lemma toy_agree: "backends_agree toy_backends"
  by (simp add: backends_agree_def toy_backends_def)

text \<open>
  Claim C6. For backends that agree (\<open>backends_agree\<close>: the two s2n-bignum routines
  give the same bytes, and the portable routine gives what they give on the clamped
  key), \<^verbatim>\<open>X25519\<close> and \<^verbatim>\<open>X25519_public_from_private\<close> write the same 32 bytes and
  return the same value on every platform, whichever routine the platform selects.
  When the s2n-bignum path is not compiled in, or neither capability predicate holds,
  the call goes to the portable routine and returns its output.
\<close>

theorem X25519_backend_choice_invisible:
  assumes agree: "backends_agree B"
    and len: "length (m private_key) = 32" "length (m peer) = 32"
  shows "X25519 cfg B out private_key peer m
           = Inr (m(out := s2n_curve25519_x25519_byte B (clamp (m private_key)) (m peer)),
                  if take 32 (s2n_curve25519_x25519_byte B (clamp (m private_key)) (m peer)) = kZeros
                  then 0 else 1)
       \<and> X25519_public_from_private cfg B out private_key m
           = Inr (m(out := s2n_curve25519_x25519base_byte B (clamp (m private_key))))
       \<and> X25519 cfg B out private_key peer m = X25519 cfg' B out private_key peer m
       \<and> X25519_public_from_private cfg B out private_key m
           = X25519_public_from_private cfg' B out private_key m
       \<and> (x25519_s2n_bignum_capable cfg \<noteq> 1
            \<or> x25519_s2n_bignum_no_alt_capable cfg \<noteq> 1 \<and> x25519_s2n_bignum_alt_capable cfg \<noteq> 1
          \<longrightarrow> X25519 cfg B out private_key peer m
                = Inr (m(out := x25519_scalar_mult_generic_nohw B (m private_key) (m peer)),
                       if take 32 (x25519_scalar_mult_generic_nohw B (m private_key) (m peer)) = kZeros
                       then 0 else 1)
            \<and> X25519_public_from_private cfg B out private_key m
                = Inr (m(out := x25519_public_from_private_nohw B (m private_key))))"
proof -
  have sel: "selected_shared_key c B (m private_key) (m peer)
      = s2n_curve25519_x25519_byte B (clamp (m private_key)) (m peer)" for c
    using agree len unfolding backends_agree_def selected_shared_key_def by simp
  have selp: "selected_public_value c B (m private_key)
      = s2n_curve25519_x25519base_byte B (clamp (m private_key))" for c
    using agree len unfolding backends_agree_def selected_public_value_def by simp
  have x: "X25519 c B out private_key peer m
           = Inr (m(out := s2n_curve25519_x25519_byte B (clamp (m private_key)) (m peer)),
                  if take 32 (s2n_curve25519_x25519_byte B (clamp (m private_key)) (m peer)) = kZeros
                  then 0 else 1)" for c
    by (subst X25519_eq, subst sel, subst sel, rule refl)
  have p: "X25519_public_from_private c B out private_key m
           = Inr (m(out := s2n_curve25519_x25519base_byte B (clamp (m private_key))))" for c
    by (subst X25519_public_from_private_eq, subst selp, rule refl)
  have f: "X25519 cfg B out private_key peer m
                = Inr (m(out := x25519_scalar_mult_generic_nohw B (m private_key) (m peer)),
                       if take 32 (x25519_scalar_mult_generic_nohw B (m private_key) (m peer)) = kZeros
                       then 0 else 1)
            \<and> X25519_public_from_private cfg B out private_key m
                = Inr (m(out := x25519_public_from_private_nohw B (m private_key)))"
    if "x25519_s2n_bignum_capable cfg \<noteq> 1
            \<or> x25519_s2n_bignum_no_alt_capable cfg \<noteq> 1 \<and> x25519_s2n_bignum_alt_capable cfg \<noteq> 1"
  proof -
    from that have nc: "\<not> CURVE25519_S2N_BIGNUM_CAPABLE cfg"
      by (rule not_capable_fallback)
    have s1: "selected_shared_key cfg B (m private_key) (m peer)
                 = x25519_scalar_mult_generic_nohw B (m private_key) (m peer)"
      and s2: "selected_public_value cfg B (m private_key)
                 = x25519_public_from_private_nohw B (m private_key)"
      using len nc by (simp_all add: selected_shared_key_def selected_public_value_def)
    show ?thesis
      by (subst X25519_eq, subst s1, subst s1, subst X25519_public_from_private_eq, subst s2)
        (rule conjI; rule refl)
  qed
  have xx: "X25519 cfg B out private_key peer m = X25519 cfg' B out private_key peer m"
    by (simp only: x)
  have pp: "X25519_public_from_private cfg B out private_key m
           = X25519_public_from_private cfg' B out private_key m"
    by (simp only: p)
  from f have ff: "x25519_s2n_bignum_capable cfg \<noteq> 1
            \<or> x25519_s2n_bignum_no_alt_capable cfg \<noteq> 1 \<and> x25519_s2n_bignum_alt_capable cfg \<noteq> 1
          \<longrightarrow> X25519 cfg B out private_key peer m
                = Inr (m(out := x25519_scalar_mult_generic_nohw B (m private_key) (m peer)),
                       if take 32 (x25519_scalar_mult_generic_nohw B (m private_key) (m peer)) = kZeros
                       then 0 else 1)
            \<and> X25519_public_from_private cfg B out private_key m
                = Inr (m(out := x25519_public_from_private_nohw B (m private_key)))"
    by (rule impI)
  from x [of cfg] p [of cfg] xx pp ff show ?thesis
    by (iprover intro: conjI)
qed

text \<open>
  At the backends that multiply modulo \<open>2^255 - 19\<close>: x86_64 without assembly (the
  portable routine), x86_64 with BMI2 and ADX, and aarch64 with the wide multiplier.
\<close>

theorem X25519_backend_choice_invisible_witness:
  "backends_agree toy_backends
   \<and> length (store (replicate 32 255) (replicate 32 9) 1) = 32
   \<and> length (store (replicate 32 255) (replicate 32 9) 2) = 32
   \<and> x25519_s2n_bignum_capable x86_64_no_asm \<noteq> 1
   \<and> x25519_s2n_bignum_capable (x86_64_linux 1 1) = 1
   \<and> X25519 x86_64_no_asm toy_backends 0 1 2 (store (replicate 32 255) (replicate 32 9))
       = X25519 (x86_64_linux 1 1) toy_backends 0 1 2 (store (replicate 32 255) (replicate 32 9))
   \<and> X25519 x86_64_no_asm toy_backends 0 1 2 (store (replicate 32 255) (replicate 32 9))
       = X25519 (aarch64_linux 1) toy_backends 0 1 2 (store (replicate 32 255) (replicate 32 9))
   \<and> X25519_public_from_private x86_64_no_asm toy_backends 0 1
         (store (replicate 32 255) (replicate 32 9))
       = Inr ((store (replicate 32 255) (replicate 32 9))
               (0 := x25519_public_from_private_nohw toy_backends (replicate 32 255)))"
proof -
  let ?m = "store (replicate 32 255) (replicate 32 9)"
  have l: "length (?m 1) = 32" "length (?m 2) = 32" "?m 1 = replicate 32 255"
    by (simp_all add: store_def)
  have c: "x25519_s2n_bignum_capable x86_64_no_asm \<noteq> 1"
    "x25519_s2n_bignum_capable (x86_64_linux 1 1) = 1"
    by (simp_all add: x25519_s2n_bignum_capable_def CURVE25519_S2N_BIGNUM_CAPABLE_def
        x86_64_no_asm_def x86_64_linux_def)
  note t1 = X25519_backend_choice_invisible [OF toy_agree l(1,2), of x86_64_no_asm 0 "x86_64_linux 1 1"]
  note t2 = X25519_backend_choice_invisible [OF toy_agree l(1,2), of x86_64_no_asm 0 "aarch64_linux 1"]
  have e1: "X25519 x86_64_no_asm toy_backends 0 1 2 ?m = X25519 (x86_64_linux 1 1) toy_backends 0 1 2 ?m"
    using t1 by blast
  have e2: "X25519 x86_64_no_asm toy_backends 0 1 2 ?m = X25519 (aarch64_linux 1) toy_backends 0 1 2 ?m"
    using t2 by blast
  have "X25519_public_from_private x86_64_no_asm toy_backends 0 1 ?m
       = Inr (?m(0 := x25519_public_from_private_nohw toy_backends (?m 1)))"
    using t1 c(1) by blast
  then have e3: "X25519_public_from_private x86_64_no_asm toy_backends 0 1 ?m
       = Inr (?m(0 := x25519_public_from_private_nohw toy_backends (replicate 32 255)))"
    by (simp only: l(3))
  show ?thesis
    using toy_agree l(1,2) c e1 e2 e3 by (iprover intro: conjI)
qed

section \<open>Clamping, bit by bit\<close>

lemma u8_or7_and7: "(x OR 7) AND 7 = (7::u8)" by (simp add: word_ao_dist)
lemma u8_inv31_and64: "((x AND 191) OR 128) AND 64 = (0::u8)" by (simp add: word_ao_dist word_bw_assocs)
lemma u8_inv31_and128: "((x AND 191) OR 128) AND 128 = (128::u8)" by (simp add: word_ao_dist word_bw_assocs)
lemma u8_or7_and248: "(x OR 7) AND 248 = x AND (248::u8)" by (simp add: word_ao_dist word_bw_assocs)
lemma u8_inv31_clamp: "(((x AND 191) OR 128) AND 127) OR 64 = (x AND 127) OR (64::u8)"
proof -
  have "((x AND 191) OR 128) AND 127 = x AND (63::u8)" by (simp add: word_ao_dist word_bw_assocs)
  then show ?thesis by (simp add: u8_clamp_63)
qed
lemma clamp_nth:
  assumes "length k = 32" "i < 32"
  shows "clamp k ! i = (if i = 0 then k ! 0 AND 248
                        else if i = 31 then (k ! 31 AND 127) OR 64 else k ! i)"
  using assms by (simp add: clamp_def Let_def nth_list_update)

lemma clamp_eqI:
  assumes l: "length a = 32" "length b = 32"
    and b0: "a ! 0 AND 248 = b ! 0 AND 248"
    and b31: "a ! 31 AND 63 = b ! 31 AND 63"
    and mid: "\<forall>i. 0 < i \<and> i < 31 \<longrightarrow> a ! i = b ! i"
  shows "clamp a = clamp b"
proof (rule nth_equalityI)
  show "length (clamp a) = length (clamp b)" using l by simp
next
  fix i assume "i < length (clamp a)"
  then have i: "i < 32" using l by simp
  have "(a ! 31 AND 127) OR 64 = (b ! 31 AND 127) OR 64"
    using b31 by (simp add: u8_clamp_63[symmetric])
  then show "clamp a ! i = clamp b ! i"
    using i b0 mid by (simp add: clamp_nth l)
qed

lemma inverse_clamp_clamp:
  assumes "length e = 32"
  shows "clamp (e[0 := e ! 0 OR 7, 31 := (e ! 31 AND 191) OR 128]) = clamp e"
  using assms
  by (intro clamp_eqI)
    (simp_all add: nth_list_update u8_or7_and248 word_ao_dist word_bw_assocs)

section \<open>The stored private key is left as it is\<close>

text \<open>
  Claim C9. \<^verbatim>\<open>X25519\<close> and \<^verbatim>\<open>X25519_public_from_private\<close> return with every buffer of
  the caller unchanged but the output buffer, so the stored private key is as it was
  (unless the caller names the key buffer itself as the output buffer, which then
  holds the output). The clamped bytes are those of the local
  \<^verbatim>\<open>private_key_internal_demask\<close> of \<^verbatim>\<open>x25519_s2n_bignum\<close> and
  \<^verbatim>\<open>x25519_s2n_bignum_public_from_private\<close>, a copy of the key; these two functions as
  well leave every buffer but the output buffer unchanged.
\<close>

theorem X25519_leaves_private_key:
  "(\<exists>m' ok. X25519 cfg B out private_key peer m = Inr (m', ok)
       \<and> (\<forall>p. p \<noteq> out \<longrightarrow> m' p = m p)
       \<and> (private_key \<noteq> out \<longrightarrow> m' private_key = m private_key))
   \<and> (\<exists>m'. X25519_public_from_private cfg B out private_key m = Inr m'
       \<and> (\<forall>p. p \<noteq> out \<longrightarrow> m' p = m p)
       \<and> (private_key \<noteq> out \<longrightarrow> m' private_key = m private_key))
   \<and> (\<forall>ex. x25519_s2n_bignum cfg B out private_key peer m = Inr ex
       \<longrightarrow> s2n_private_key_internal_demask ex = clamp (take 32 (m private_key))
         \<and> (\<forall>p. p \<noteq> out \<longrightarrow> s2n_mem ex p = m p)
         \<and> (private_key \<noteq> out \<longrightarrow> s2n_mem ex private_key = m private_key))
   \<and> (\<forall>ex. x25519_s2n_bignum_public_from_private cfg B out private_key m = Inr ex
       \<longrightarrow> s2n_private_key_internal_demask ex = clamp (take 32 (m private_key))
         \<and> (\<forall>p. p \<noteq> out \<longrightarrow> s2n_mem ex p = m p)
         \<and> (private_key \<noteq> out \<longrightarrow> s2n_mem ex private_key = m private_key))"
proof (intro conjI allI impI)
  show "\<exists>m' ok. X25519 cfg B out private_key peer m = Inr (m', ok)
       \<and> (\<forall>p. p \<noteq> out \<longrightarrow> m' p = m p)
       \<and> (private_key \<noteq> out \<longrightarrow> m' private_key = m private_key)"
    by (subst X25519_eq) simp
  show "\<exists>m'. X25519_public_from_private cfg B out private_key m = Inr m'
       \<and> (\<forall>p. p \<noteq> out \<longrightarrow> m' p = m p)
       \<and> (private_key \<noteq> out \<longrightarrow> m' private_key = m private_key)"
    by (subst X25519_public_from_private_eq) simp
next
  fix ex assume "x25519_s2n_bignum cfg B out private_key peer m = Inr ex"
  then have e: "\<exists>v. ex = \<lparr>s2n_mem = m(out := v),
                 s2n_private_key_internal_demask = clamp (take 32 (m private_key))\<rparr>"
    unfolding x25519_s2n_bignum_def clamp_let s2n_return_def
      curve25519_x25519_byte_def curve25519_x25519_byte_alt_def
    by (auto split: arch.splits if_splits sum.splits)
  from e show "s2n_private_key_internal_demask ex = clamp (take 32 (m private_key))"
    by auto
  from e show "s2n_mem ex p = m p" if "p \<noteq> out" for p
    using that by auto
  from e show "s2n_mem ex private_key = m private_key" if "private_key \<noteq> out"
    using that by auto
next
  fix ex assume "x25519_s2n_bignum_public_from_private cfg B out private_key m = Inr ex"
  then have e: "\<exists>v. ex = \<lparr>s2n_mem = m(out := v),
                 s2n_private_key_internal_demask = clamp (take 32 (m private_key))\<rparr>"
    unfolding x25519_s2n_bignum_public_from_private_def clamp_let s2n_return_def
      curve25519_x25519base_byte_def curve25519_x25519base_byte_alt_def
    by (auto split: arch.splits if_splits sum.splits)
  from e show "s2n_private_key_internal_demask ex = clamp (take 32 (m private_key))"
    by auto
  from e show "s2n_mem ex p = m p" if "p \<noteq> out" for p
    using that by auto
  from e show "s2n_mem ex private_key = m private_key" if "private_key \<noteq> out"
    using that by auto
qed

text \<open>
  On x86_64 with BMI2 and ADX and on aarch64 without the wide multiplier, with the key
  of 32 bytes 255 at pointer 1 and the output at pointer 0.
\<close>

theorem X25519_leaves_private_key_witness:
  "(1::ptr) \<noteq> 0
   \<and> (\<exists>m' ok. X25519 (x86_64_linux 1 1) toy_backends 0 1 2
                  (store (replicate 32 255) (replicate 32 9)) = Inr (m', ok)
        \<and> m' 1 = replicate 32 255)
   \<and> (\<exists>m'. X25519_public_from_private (aarch64_linux 0) toy_backends 0 1
                  (store (replicate 32 255) (replicate 32 9)) = Inr m'
        \<and> m' 1 = replicate 32 255)
   \<and> (\<exists>ex. x25519_s2n_bignum (x86_64_linux 1 1) toy_backends 0 1 2
                  (store (replicate 32 255) (replicate 32 9)) = Inr ex
        \<and> s2n_private_key_internal_demask ex = clamp (replicate 32 255)
        \<and> s2n_mem ex 1 = replicate 32 255)"
proof -
  let ?m = "store (replicate 32 255) (replicate 32 9)"
  have ne: "(1::ptr) \<noteq> 0" by simp
  have k: "?m 1 = replicate 32 255" "take 32 (replicate 32 255) = replicate 32 (255::u8)"
    by (simp_all add: store_def)
  note t = X25519_leaves_private_key [of "x86_64_linux 1 1" toy_backends 0 1 2 ?m]
  note u = X25519_leaves_private_key [of "aarch64_linux 0" toy_backends 0 1 2 ?m]
  from t ne
  have 1: "\<exists>m' ok. X25519 (x86_64_linux 1 1) toy_backends 0 1 2 ?m = Inr (m', ok)
        \<and> m' 1 = ?m 1"
    by blast
  from u ne
  have 2: "\<exists>m'. X25519_public_from_private (aarch64_linux 0) toy_backends 0 1 ?m = Inr m'
        \<and> m' 1 = ?m 1"
    by blast
  from t ne toy_s2n_run
  have 3: "\<exists>ex. x25519_s2n_bignum (x86_64_linux 1 1) toy_backends 0 1 2 ?m = Inr ex
        \<and> s2n_private_key_internal_demask ex = clamp (take 32 (?m 1))
        \<and> s2n_mem ex 1 = ?m 1"
    by blast
  from ne 1 2 3 show ?thesis
    unfolding k by (iprover intro: conjI)
qed

section \<open>The bits that clamping discards do not show\<close>

text \<open>
  Claim C10. Two 32-byte private keys that differ only in the low three bits of byte 0
  and the top two bits of byte 31 are equal after clamping, and \<^verbatim>\<open>X25519\<close> gives the same
  result for both with the same peer value, as \<^verbatim>\<open>X25519_public_from_private\<close> does.
  On the s2n-bignum path this is the code's own clamping; where that path is not
  compiled in, the portable routines are taken to read the key through its clamped
  copy (\<open>nohw_reads_clamped\<close>).
\<close>

theorem X25519_ignores_clamped_bits:
  assumes len: "length (m k1) = 32" "length (m k2) = 32"
    and b0: "m k1 ! 0 AND 248 = m k2 ! 0 AND 248"
    and b31: "m k1 ! 31 AND 63 = m k2 ! 31 AND 63"
    and mid: "\<forall>i. 0 < i \<and> i < 31 \<longrightarrow> m k1 ! i = m k2 ! i"
    and nohw: "\<not> CURVE25519_S2N_BIGNUM_CAPABLE cfg \<Longrightarrow> nohw_reads_clamped B"
  shows "clamp (m k1) = clamp (m k2)
       \<and> X25519 cfg B out k1 peer m = X25519 cfg B out k2 peer m
       \<and> X25519_public_from_private cfg B out k1 m = X25519_public_from_private cfg B out k2 m"
proof -
  have c: "clamp (m k1) = clamp (m k2)"
    using len b0 b31 mid by (rule clamp_eqI)
  have t: "take 32 (m k1) = m k1" "take 32 (m k2) = m k2" using len by simp_all
  have s: "selected_shared_key cfg B (m k1) (m peer) = selected_shared_key cfg B (m k2) (m peer)"
  proof (cases "CURVE25519_S2N_BIGNUM_CAPABLE cfg")
    case True
    then show ?thesis by (simp add: selected_shared_key_def t c)
  next
    case False
    from nohw[OF False] have "x25519_scalar_mult_generic_nohw B (m k1) (take 32 (m peer))
        = x25519_scalar_mult_generic_nohw B (m k2) (take 32 (m peer))"
      using len c unfolding nohw_reads_clamped_def by blast
    with False show ?thesis by (simp add: selected_shared_key_def t)
  qed
  have p: "selected_public_value cfg B (m k1) = selected_public_value cfg B (m k2)"
  proof (cases "CURVE25519_S2N_BIGNUM_CAPABLE cfg")
    case True
    then show ?thesis by (simp add: selected_public_value_def t c)
  next
    case False
    from nohw[OF False] have "x25519_public_from_private_nohw B (m k1)
        = x25519_public_from_private_nohw B (m k2)"
      using len c unfolding nohw_reads_clamped_def by blast
    with False show ?thesis by (simp add: selected_public_value_def t)
  qed
  have x: "X25519 cfg B out k1 peer m = X25519 cfg B out k2 peer m"
    by (subst X25519_eq, subst X25519_eq, subst s, subst s, rule refl)
  have pp: "X25519_public_from_private cfg B out k1 m = X25519_public_from_private cfg B out k2 m"
    by (subst X25519_public_from_private_eq, subst X25519_public_from_private_eq, subst p, rule refl)
  from c x pp show ?thesis by (iprover intro: conjI)
qed

lemma toy_nohw_reads_clamped: "nohw_reads_clamped toy_backends"
  by (simp add: nohw_reads_clamped_def toy_backends_def)

text \<open>
  The keys \<open>248, 255, \<dots>, 255, 63\<close> and \<open>255, \<dots>, 255\<close>, at pointers 1 and 2 of one store,
  on x86_64 with BMI2 and ADX and on x86_64 without assembly.
\<close>

theorem X25519_ignores_clamped_bits_witness:
  "248 # replicate 30 255 @ [63] \<noteq> replicate 32 (255::u8)
   \<and> clamp (248 # replicate 30 255 @ [63]) = clamp (replicate 32 255)
   \<and> X25519 (x86_64_linux 1 1) toy_backends 0 1 2
         (store (248 # replicate 30 255 @ [63]) (replicate 32 255))
       = X25519 (x86_64_linux 1 1) toy_backends 0 2 2
         (store (248 # replicate 30 255 @ [63]) (replicate 32 255))
   \<and> X25519_public_from_private x86_64_no_asm toy_backends 0 1
         (store (248 # replicate 30 255 @ [63]) (replicate 32 255))
       = X25519_public_from_private x86_64_no_asm toy_backends 0 2
         (store (248 # replicate 30 255 @ [63]) (replicate 32 255))"
proof -
  let ?a = "248 # replicate 30 255 @ [63::u8]"
  let ?b = "replicate 32 (255::u8)"
  let ?m = "store ?a ?b"
  have m: "?m 1 = ?a" "?m 2 = ?b" by (simp_all add: store_def)
  have ne: "?a \<noteq> ?b"
  proof
    assume "?a = ?b"
    then have "?a ! 0 = ?b ! 0" by simp
    then show False by simp
  qed
  have l: "length (?m 1) = 32" "length (?m 2) = 32" by (simp_all add: store_def)
  have b0: "?m 1 ! 0 AND 248 = ?m 2 ! 0 AND 248" by (simp add: store_def)
  have b31: "?m 1 ! 31 AND 63 = ?m 2 ! 31 AND 63" by (simp add: store_def nth_append)
  have mid: "\<forall>i. 0 < i \<and> i < 31 \<longrightarrow> ?m 1 ! i = ?m 2 ! i"
    by (auto simp: store_def nth_Cons' nth_append)
  have cap: "\<not> CURVE25519_S2N_BIGNUM_CAPABLE (x86_64_linux 1 1) \<Longrightarrow> nohw_reads_clamped toy_backends"
    and ncap: "\<not> CURVE25519_S2N_BIGNUM_CAPABLE x86_64_no_asm \<Longrightarrow> nohw_reads_clamped toy_backends"
    by (rule toy_nohw_reads_clamped)+
  note t1 = X25519_ignores_clamped_bits [OF l b0 b31 mid cap, where out=0 and peer=2]
  note t2 = X25519_ignores_clamped_bits [OF l b0 b31 mid ncap, where out=0 and peer=2]
  have c: "clamp ?a = clamp ?b" using t1 unfolding m by (rule conjunct1)
  have x: "X25519 (x86_64_linux 1 1) toy_backends 0 1 2 ?m
       = X25519 (x86_64_linux 1 1) toy_backends 0 2 2 ?m"
    using t1 by (iprover elim: conjE)
  have p: "X25519_public_from_private x86_64_no_asm toy_backends 0 1 ?m
       = X25519_public_from_private x86_64_no_asm toy_backends 0 2 ?m"
    using t2 by (iprover elim: conjE)
  from ne c x p show ?thesis by (iprover intro: conjI)
qed

section \<open>A generated X25519 key is stored with the clamping inverted\<close>

lemma u8_neg: "(- 249 :: u8) = 7" "(- 65 :: u8) = 191" "(- 128 :: u8) = 128"
  by simp_all

lemma X25519_keypair_eq:
  assumes "length entropy = 32"
  shows "X25519_keypair cfg B entropy out_public_value out_private_key m
     = X25519_public_from_private cfg B out_public_value out_private_key
         (m(out_private_key := entropy[0 := entropy ! 0 OR 7, 31 := (entropy ! 31 AND 191) OR 128]))"
  using assms
  by (simp add: X25519_keypair_def RAND_bytes_def Let_def u8_neg nth_list_update)

text \<open>
  Claim C7. \<^verbatim>\<open>X25519_keypair\<close>, given the 32 random bytes the source delivers and
  distinct buffers for the two outputs, stores as private key the random bytes with the
  low three bits of byte 0 set, bit 6 of byte 31 cleared and bit 7 of byte 31 set, all
  other bits as drawn. The public value it writes is the one
  \<^verbatim>\<open>X25519_public_from_private\<close> computes from that stored key; clamping the stored key
  gives the clamped random bytes, and on the s2n-bignum path the public value is the
  backend's output for them.
\<close>

theorem X25519_keypair_inverse_clamped:
  assumes len: "length entropy = 32" and ne: "out_public_value \<noteq> out_private_key"
  shows "\<exists>k pub.
           k = entropy[0 := entropy ! 0 OR 7, 31 := (entropy ! 31 AND 191) OR 128]
         \<and> X25519_keypair cfg B entropy out_public_value out_private_key m
             = Inr (m(out_private_key := k, out_public_value := pub))
         \<and> (\<forall>out' private_key' m'. m' private_key' = k \<longrightarrow>
               X25519_public_from_private cfg B out' private_key' m' = Inr (m'(out' := pub)))
         \<and> k ! 0 AND 7 = 7 \<and> k ! 31 AND 64 = 0 \<and> k ! 31 AND 128 = 128
         \<and> (\<forall>i. 0 < i \<and> i < 31 \<longrightarrow> k ! i = entropy ! i)
         \<and> clamp k = clamp entropy
         \<and> (CURVE25519_S2N_BIGNUM_CAPABLE cfg \<longrightarrow>
               pub = s2n_curve25519_x25519base_byte B (clamp entropy)
             \<or> pub = s2n_curve25519_x25519base_byte_alt B (clamp entropy))"
proof (intro exI conjI allI impI)
  let ?k = "entropy[0 := entropy ! 0 OR 7, 31 := (entropy ! 31 AND 191) OR 128]"
  let ?pub = "selected_public_value cfg B ?k"
  show "?k = entropy[0 := entropy ! 0 OR 7, 31 := (entropy ! 31 AND 191) OR 128]" by (rule refl)
  show "X25519_keypair cfg B entropy out_public_value out_private_key m
             = Inr (m(out_private_key := ?k, out_public_value := ?pub))"
    using ne by (subst X25519_keypair_eq[OF len], subst X25519_public_from_private_eq) simp
  show "X25519_public_from_private cfg B out' private_key' m' = Inr (m'(out' := ?pub))"
    if "m' private_key' = ?k" for out' private_key' m'
    using that by (subst X25519_public_from_private_eq) simp
  show "?k ! 0 AND 7 = 7" using len by (simp add: nth_list_update u8_or7_and7)
  show "?k ! 31 AND 64 = 0" using len by (simp add: nth_list_update u8_inv31_and64)
  show "?k ! 31 AND 128 = 128" using len by (simp add: nth_list_update u8_inv31_and128)
  show "?k ! i = entropy ! i" if "0 < i \<and> i < 31" for i
    using that len by (simp add: nth_list_update)
  show "clamp ?k = clamp entropy" using len by (rule inverse_clamp_clamp)
  show "?pub = s2n_curve25519_x25519base_byte B (clamp entropy)
             \<or> ?pub = s2n_curve25519_x25519base_byte_alt B (clamp entropy)"
    if "CURVE25519_S2N_BIGNUM_CAPABLE cfg"
    using that len inverse_clamp_clamp[OF len] by (simp add: selected_public_value_def)
qed

text \<open>
  For random bytes that are all zero, on x86_64 with BMI2 and ADX: the stored key is
  \<open>7, 0, \<dots>, 0, 128\<close>.
\<close>

theorem X25519_keypair_inverse_clamped_witness:
  "length (replicate 32 (0::u8)) = 32 \<and> (0::ptr) \<noteq> 1
   \<and> (\<exists>pub. X25519_keypair (x86_64_linux 1 1) toy_backends (replicate 32 0) 0 1
                 (store [] [])
             = Inr ((store [] [])(1 := (replicate 32 0)[0 := 7, 31 := 128], 0 := pub)))"
proof -
  have l: "length (replicate 32 (0::u8)) = 32" by simp
  have ne: "(0::ptr) \<noteq> 1" by simp
  from X25519_keypair_inverse_clamped [OF l ne, of "x86_64_linux 1 1" toy_backends "store [] []"]
  obtain k pub where
    k: "k = (replicate 32 0)[0 := replicate 32 (0::u8) ! 0 OR 7,
                              31 := (replicate 32 (0::u8) ! 31 AND 191) OR 128]"
    and r: "X25519_keypair (x86_64_linux 1 1) toy_backends (replicate 32 0) 0 1 (store [] [])
             = Inr ((store [] [])(1 := k, 0 := pub))"
    by blast
  have "k = (replicate 32 0)[0 := 7, 31 := 128]" unfolding k by simp
  with r l ne show ?thesis by blast
qed

section \<open>Which scratch buffers are erased\<close>

lemma u8_bit6_63: "((x AND 63) OR 64) AND 64 = (64::u8)"
  by (simp add: word_ao_dist word_bw_assocs)

lemma u8_bit6_127: "((x AND 127) OR 64) AND 64 = (64::u8)"
  by (simp add: word_ao_dist word_bw_assocs)

lemma clamp_not_erased:
  assumes "length k = 32"
  shows "clamp k \<noteq> replicate 32 0"
proof
  assume "clamp k = replicate 32 0"
  then have "clamp k ! 31 AND 64 = replicate 32 (0::u8) ! 31 AND 64" by simp
  then show False using assms by (simp add: clamp_nth u8_bit6_127)
qed

lemma sign_az_eq:
  "sign_az (ED25519_sign E message private_key)
     = (let az = SHA512 E (take 32 private_key);
            az = az[0 := az ! 0 AND 248];
            az = az[31 := az ! 31 AND 63]
        in az[31 := az ! 31 OR 64])"
  by (simp add: ED25519_sign_def Let_def)

lemma sign_az_not_erased:
  assumes "length (SHA512 E (take 32 private_key)) = 64"
  shows "sign_az (ED25519_sign E message private_key) ! 31 AND 64 = 64"
    and "sign_az (ED25519_sign E message private_key) \<noteq> replicate 64 0"
proof -
  show a: "sign_az (ED25519_sign E message private_key) ! 31 AND 64 = 64"
    using assms by (simp add: sign_az_eq Let_def u8_bit6_63)
  show "sign_az (ED25519_sign E message private_key) \<noteq> replicate 64 0"
  proof
    assume "sign_az (ED25519_sign E message private_key) = replicate 64 0"
    then have "sign_az (ED25519_sign E message private_key) ! 31 AND 64
                 = replicate 64 (0::u8) ! 31 AND 64" by simp
    with a show False by simp
  qed
qed

lemma s2n_bignum_Inr:
  assumes "x25519_s2n_bignum cfg B out private_key peer m = Inr ex"
  shows "s2n_private_key_internal_demask ex = clamp (take 32 (m private_key))"
  using assms
  unfolding x25519_s2n_bignum_def clamp_let s2n_return_def
      curve25519_x25519_byte_def curve25519_x25519_byte_alt_def
  by (auto split: arch.splits if_splits sum.splits)

lemma s2n_bignum_pfp_Inr:
  assumes "x25519_s2n_bignum_public_from_private cfg B out private_key m = Inr ex"
  shows "s2n_private_key_internal_demask ex = clamp (take 32 (m private_key))"
  using assms
  unfolding x25519_s2n_bignum_public_from_private_def clamp_let s2n_return_def
      curve25519_x25519base_byte_def curve25519_x25519base_byte_alt_def
  by (auto split: arch.splits if_splits sum.splits)

lemma kfs_az_eq:
  "kfs_az (ED25519_keypair_from_seed E seed)
     = (let az = SHA512 E (take 32 seed);
            az = az[0 := az ! 0 AND 248];
            az = az[31 := az ! 31 AND 127]
        in az[31 := az ! 31 OR 64])"
  by (simp add: ED25519_keypair_from_seed_def ED25519_SEED_LEN_def Let_def)

lemma kfs_az_not_erased:
  assumes "length (SHA512 E (take 32 seed)) = 64"
  shows "kfs_az (ED25519_keypair_from_seed E seed) ! 31 AND 64 = 64"
    and "kfs_az (ED25519_keypair_from_seed E seed) \<noteq> replicate 64 0"
proof -
  show a: "kfs_az (ED25519_keypair_from_seed E seed) ! 31 AND 64 = 64"
    using assms by (simp add: kfs_az_eq Let_def u8_bit6_127)
  show "kfs_az (ED25519_keypair_from_seed E seed) \<noteq> replicate 64 0"
  proof
    assume "kfs_az (ED25519_keypair_from_seed E seed) = replicate 64 0"
    then have "kfs_az (ED25519_keypair_from_seed E seed) ! 31 AND 64
                 = replicate 64 (0::u8) ! 31 AND 64" by simp
    with a show False by simp
  qed
qed

lemma sign_az_clamped:
  assumes "length (SHA512 E (take 32 private_key)) = 64"
  shows "take 32 (sign_az (ED25519_sign E message private_key))
           = clamp (take 32 (SHA512 E (take 32 private_key)))"
  using assms
  by (simp add: sign_az_eq clamp_def Let_def take_update_swap u8_clamp_63)

text \<open>
  Claim C8 says that every scratch buffer that held private scalar material is
  overwritten with the erasing pattern before the function returns. It fails:
  \<^verbatim>\<open>ED25519_sign\<close> returns with \<^verbatim>\<open>az\<close> still holding the clamped digest of the private
  seed, and \<^verbatim>\<open>x25519_s2n_bignum\<close> returns with \<^verbatim>\<open>private_key_internal_demask\<close> still
  holding the clamped private key; neither is all zero, since bit 6 of byte 31 is set.
  Here for the private key of 64 zero bytes at the small engine, and for the key of 32
  bytes 255 on x86_64 with BMI2 and ADX.
\<close>

theorem scratch_not_erased_counterexample:
  "sign_az (ED25519_sign toy_engine [] (replicate 64 0)) \<noteq> replicate 64 0
   \<and> sign_az (ED25519_sign toy_engine [] (replicate 64 0)) ! 31 AND 64 = 64
   \<and> x25519_s2n_bignum (x86_64_linux 1 1) toy_backends 0 1 2
         (store (replicate 32 255) (replicate 32 9))
       = Inr \<lparr>s2n_mem = (store (replicate 32 255) (replicate 32 9))
                          (0 := toy_mult (clamp (replicate 32 255)) (replicate 32 9)),
              s2n_private_key_internal_demask = clamp (replicate 32 255)\<rparr>
   \<and> clamp (replicate 32 255) \<noteq> replicate 32 0"
proof -
  have "length (SHA512 toy_engine (take 32 (replicate 64 0))) = 64" by (rule toy_sha)
  note a = sign_az_not_erased [OF this, of "[]"]
  have "clamp (replicate 32 255) \<noteq> replicate 32 0"
    by (rule clamp_not_erased) simp
  with toy_s2n_run a show ?thesis by (iprover intro: conjI)
qed

text \<open>
  Claim C8, amended. Only \<^verbatim>\<open>ED25519_keypair\<close> erases scratch: its local random seed is
  all zero when it returns. \<^verbatim>\<open>ED25519_keypair_from_seed\<close> and \<^verbatim>\<open>ED25519_sign\<close> return
  with \<^verbatim>\<open>az\<close> as computed (in \<^verbatim>\<open>ED25519_sign\<close> its first half is the clamped scalar), and
  \<^verbatim>\<open>x25519_s2n_bignum\<close> and \<^verbatim>\<open>x25519_s2n_bignum_public_from_private\<close> return with
  \<^verbatim>\<open>private_key_internal_demask\<close> equal to the clamped private key: none of these
  buffers is erased.
\<close>

theorem scratch_erasure_as_coded:
  "(length entropy = 32 \<longrightarrow> kp_seed (ED25519_keypair E entropy) = replicate 32 0)
   \<and> (length (SHA512 E (take 32 seed)) = 64 \<longrightarrow>
        kfs_az (ED25519_keypair_from_seed E seed) ! 31 AND 64 = 64
      \<and> kfs_az (ED25519_keypair_from_seed E seed) \<noteq> replicate 64 0)
   \<and> (length (SHA512 E (take 32 private_key)) = 64 \<longrightarrow>
        take 32 (sign_az (ED25519_sign E message private_key))
          = clamp (take 32 (SHA512 E (take 32 private_key)))
      \<and> sign_az (ED25519_sign E message private_key) ! 31 AND 64 = 64
      \<and> sign_az (ED25519_sign E message private_key) \<noteq> replicate 64 0)
   \<and> (length (m key) = 32 \<and> x25519_s2n_bignum cfg B out key peer m = Inr ex \<longrightarrow>
        s2n_private_key_internal_demask ex = clamp (m key)
      \<and> s2n_private_key_internal_demask ex \<noteq> replicate 32 0)
   \<and> (length (m key) = 32 \<and> x25519_s2n_bignum_public_from_private cfg B out key m = Inr ex' \<longrightarrow>
        s2n_private_key_internal_demask ex' = clamp (m key)
      \<and> s2n_private_key_internal_demask ex' \<noteq> replicate 32 0)"
proof (intro conjI impI)
  assume "length entropy = 32"
  then show "kp_seed (ED25519_keypair E entropy) = replicate 32 0"
    by (simp add: ED25519_keypair_def Let_def RAND_bytes_def OPENSSL_cleanse_def
        ED25519_SEED_LEN_def)
next
  assume a: "length (SHA512 E (take 32 seed)) = 64"
  show "kfs_az (ED25519_keypair_from_seed E seed) ! 31 AND 64 = 64"
    using a by (rule kfs_az_not_erased)
  show "kfs_az (ED25519_keypair_from_seed E seed) \<noteq> replicate 64 0"
    using a by (rule kfs_az_not_erased)
next
  assume a: "length (SHA512 E (take 32 private_key)) = 64"
  show "take 32 (sign_az (ED25519_sign E message private_key))
          = clamp (take 32 (SHA512 E (take 32 private_key)))"
    using a by (rule sign_az_clamped)
  show "sign_az (ED25519_sign E message private_key) ! 31 AND 64 = 64"
    using a by (rule sign_az_not_erased)
  show "sign_az (ED25519_sign E message private_key) \<noteq> replicate 64 0"
    using a by (rule sign_az_not_erased)
next
  assume a: "length (m key) = 32 \<and> x25519_s2n_bignum cfg B out key peer m = Inr ex"
  then have d: "s2n_private_key_internal_demask ex = clamp (m key)"
    using s2n_bignum_Inr[of cfg B out key peer m ex] by simp
  then show "s2n_private_key_internal_demask ex = clamp (m key)" .
  show "s2n_private_key_internal_demask ex \<noteq> replicate 32 0"
    unfolding d using a by (intro clamp_not_erased) simp
next
  assume a: "length (m key) = 32
      \<and> x25519_s2n_bignum_public_from_private cfg B out key m = Inr ex'"
  then have d: "s2n_private_key_internal_demask ex' = clamp (m key)"
    using s2n_bignum_pfp_Inr[of cfg B out key m ex'] by simp
  then show "s2n_private_key_internal_demask ex' = clamp (m key)" .
  show "s2n_private_key_internal_demask ex' \<noteq> replicate 32 0"
    unfolding d using a by (intro clamp_not_erased) simp
qed

text \<open>At the small engine and the backends that multiply modulo \<open>2^255 - 19\<close>.\<close>

theorem scratch_erasure_as_coded_witness:
  "length (replicate 32 (9::u8)) = 32
   \<and> kp_seed (ED25519_keypair toy_engine (replicate 32 9)) = replicate 32 0
   \<and> length (SHA512 toy_engine (take 32 (replicate 32 9))) = 64
   \<and> kfs_az (ED25519_keypair_from_seed toy_engine (replicate 32 9)) \<noteq> replicate 64 0
   \<and> sign_az (ED25519_sign toy_engine [] (replicate 32 9)) \<noteq> replicate 64 0
   \<and> x25519_s2n_bignum (x86_64_linux 1 1) toy_backends 0 1 2
         (store (replicate 32 255) (replicate 32 9))
       = Inr \<lparr>s2n_mem = (store (replicate 32 255) (replicate 32 9))
                          (0 := toy_mult (clamp (replicate 32 255)) (replicate 32 9)),
              s2n_private_key_internal_demask = clamp (replicate 32 255)\<rparr>
   \<and> clamp (replicate 32 255) \<noteq> replicate 32 0"
proof -
  let ?m = "store (replicate 32 255) (replicate 32 9)"
  let ?ex = "\<lparr>s2n_mem = ?m(0 := toy_mult (clamp (replicate 32 255)) (replicate 32 9)),
              s2n_private_key_internal_demask = clamp (replicate 32 255)\<rparr>"
  have l: "length (replicate 32 (9::u8)) = 32" by simp
  have h: "length (SHA512 toy_engine (take 32 (replicate 32 9))) = 64" by (rule toy_sha)
  have k: "length (?m 1) = 32" by (simp add: store_def)
  note t = scratch_erasure_as_coded [of "replicate 32 9" toy_engine "replicate 32 9" "replicate 32 9" "[]"
      ?m 1 "x86_64_linux 1 1" toy_backends 0 2 ?ex]
  from t l have 1: "kp_seed (ED25519_keypair toy_engine (replicate 32 9)) = replicate 32 0"
    by (iprover elim: conjE impE)
  from t h have 2: "kfs_az (ED25519_keypair_from_seed toy_engine (replicate 32 9)) \<noteq> replicate 64 0"
    by (iprover elim: conjE impE)
  from t h have 3: "sign_az (ED25519_sign toy_engine [] (replicate 32 9)) \<noteq> replicate 64 0"
    by (iprover elim: conjE impE)
  from t k toy_s2n_run have "s2n_private_key_internal_demask ?ex \<noteq> replicate 32 0"
    by (iprover elim: conjE impE intro: conjI)
  then have 4: "clamp (replicate 32 255) \<noteq> replicate 32 0" by simp
  from l 1 h 2 3 toy_s2n_run 4 show ?thesis by (iprover intro: conjI)
qed

end
